theory Spec2Isabelle
  imports Complex_Main "HOL-Library.Multiset"
begin

section \<open>Data model (db/schema.ts)\<close>

text \<open>
  The tables of the SQLite schema, one record per row type. A table is the list of its
  rows in insertion order. Columns typed \<open>real\<close> hold real numbers, and the arithmetic on
  them is exact, except in the section on the arithmetic of SQLite, which gives the
  balance code with the rounding of IEEE 754 doubles. A JavaScript \<open>Date\<close> is
  its time value, the number of milliseconds since the epoch. A nullable column is an
  \<open>option\<close>.
\<close>

type_synonym date = int

record Wallet =
  w_id :: string
  w_name :: string
  w_type :: string
  w_balance :: real
  w_currency :: string
  w_creditLimit :: "real option"
  w_billingDate :: "int option"
  w_dueDate :: "int option"
  w_cashbackRate :: "real option"
  w_icon :: "string option"
  w_color :: "string option"
  w_notes :: "string option"
  w_isActive :: bool
  w_createdAt :: date
  w_updatedAt :: date

record Transaction =
  t_id :: string
  t_walletId :: string
  t_type :: string
  t_amount :: real
  t_categoryId :: "string option"
  t_description :: "string option"
  t_notes :: "string option"
  t_toWalletId :: "string option"
  t_transferFee :: "real option"
  t_recurringId :: "string option"
  t_transactionDate :: date
  t_tags :: "string option"
  t_attachments :: "string option"
  t_createdAt :: date
  t_updatedAt :: date

record LendBorrow =
  lb_id :: string
  lb_type :: string
  lb_personName :: string
  lb_amount :: real
  lb_remainingAmount :: real
  lb_description :: "string option"
  lb_notes :: "string option"
  lb_dueDate :: "date option"
  lb_walletId :: "string option"
  lb_status :: string
  lb_createdAt :: date
  lb_updatedAt :: date

record LendBorrowPayment =
  p_id :: string
  p_lendBorrowId :: string
  p_amount :: real
  p_paymentDate :: date
  p_notes :: "string option"
  p_transactionId :: "string option"
  p_createdAt :: date

record Budget =
  b_id :: string
  b_categoryId :: string
  b_amount :: real
  b_period :: string
  b_month :: "int option"
  b_year :: "int option"
  b_createdAt :: date
  b_updatedAt :: date

record BillReminder =
  r_id :: string
  r_title :: string
  r_amount :: "real option"
  r_categoryId :: "string option"
  r_walletId :: "string option"
  r_dueDate :: date
  r_reminderDate :: "date option"
  r_isRecurring :: bool
  r_frequency :: "string option"
  r_isPaid :: bool
  r_transactionId :: "string option"
  r_notes :: "string option"
  r_createdAt :: date
  r_updatedAt :: date

text \<open>The database handle \<open>this.db\<close> of every service: the six tables the services touch.\<close>

record db =
  wallets :: "Wallet list"
  transactions :: "Transaction list"
  lendBorrow :: "LendBorrow list"
  lendBorrowPayments :: "LendBorrowPayment list"
  budgets :: "Budget list"
  billReminders :: "BillReminder list"

text \<open>
  What a rejected promise carries. \<open>Error msg\<close> is an explicit \<open>throw new Error(msg)\<close>;
  \<open>TypeError\<close> is the runtime's error on reading a property of \<open>undefined\<close>;
  \<open>SqliteConstraint\<close> is an insert refused by a primary key. A service call returns the
  database it leaves behind together with its outcome: no call opens a SQL transaction, so
  the writes made before a throw stay.
\<close>

datatype error = Error string | TypeError | SqliteConstraint

type_synonym 'a outcome = "db \<times> (error + 'a)"

text \<open>JavaScript truthiness of a \<open>string | null\<close> value.\<close>

fun truthyString :: "string option \<Rightarrow> bool" where
  "truthyString None = False"
| "truthyString (Some s) = (s \<noteq> [])"

text \<open>\<open>x || d\<close> on a \<open>number | null | undefined\<close>: 0 is falsy.\<close>

fun numberOr :: "real option \<Rightarrow> real \<Rightarrow> real" where
  "numberOr None d = d"
| "numberOr (Some x) d = (if x \<noteq> 0 then x else d)"

text \<open>
  One key of the object given to \<open>.set(...)\<close>: \<open>None\<close> is a key that is missing (or
  \<open>undefined\<close>), which leaves the column as it is.
\<close>

fun setCol :: "'a option \<Rightarrow> 'a \<Rightarrow> 'a" where
  "setCol None old = old"
| "setCol (Some v) old = v"

section \<open>TransactionService (services/transaction.service.ts)\<close>

text \<open>\<open>UPDATE wallets SET ... WHERE id = wid\<close>: every row with that id is rewritten by \<open>f\<close>.\<close>

definition updateWalletsWhereId :: "string \<Rightarrow> (Wallet \<Rightarrow> Wallet) \<Rightarrow> db \<Rightarrow> db" where
  "updateWalletsWhereId wid f d =
     d\<lparr>wallets := map (\<lambda>w. if w_id w = wid then f w else w) (wallets d)\<rparr>"

text \<open>
  \<open>updateWalletBalance\<close>. The value \<open>now\<close> stands for the clock read by \<open>new Date()\<close>.
  The third branch is guarded by \<open>transaction.type === "transfer" && transaction.toWalletId\<close>,
  so a transfer whose destination is null or the empty string writes nothing.
\<close>

definition updateWalletBalance :: "db \<Rightarrow> date \<Rightarrow> Transaction \<Rightarrow> db" where
  "updateWalletBalance d now t =
     (if t_type t = ''income'' then
        updateWalletsWhereId (t_walletId t)
          (\<lambda>w. w\<lparr>w_balance := w_balance w + t_amount t, w_updatedAt := now\<rparr>) d
      else if t_type t = ''expense'' then
        updateWalletsWhereId (t_walletId t)
          (\<lambda>w. w\<lparr>w_balance := w_balance w - t_amount t, w_updatedAt := now\<rparr>) d
      else if t_type t = ''transfer'' \<and> truthyString (t_toWalletId t) then
        (case t_toWalletId t of
           None \<Rightarrow> d
         | Some dst \<Rightarrow>
             updateWalletsWhereId dst
               (\<lambda>w. w\<lparr>w_balance := w_balance w + t_amount t, w_updatedAt := now\<rparr>)
               (updateWalletsWhereId (t_walletId t)
                  (\<lambda>w. w\<lparr>w_balance := w_balance w - t_amount t - numberOr (t_transferFee t) 0,
                          w_updatedAt := now\<rparr>) d))
      else d)"

text \<open>\<open>reverseWalletBalance\<close>, used by update and delete.\<close>

definition reverseWalletBalance :: "db \<Rightarrow> date \<Rightarrow> Transaction \<Rightarrow> db" where
  "reverseWalletBalance d now t =
     (if t_type t = ''income'' then
        updateWalletsWhereId (t_walletId t)
          (\<lambda>w. w\<lparr>w_balance := w_balance w - t_amount t, w_updatedAt := now\<rparr>) d
      else if t_type t = ''expense'' then
        updateWalletsWhereId (t_walletId t)
          (\<lambda>w. w\<lparr>w_balance := w_balance w + t_amount t, w_updatedAt := now\<rparr>) d
      else if t_type t = ''transfer'' \<and> truthyString (t_toWalletId t) then
        (case t_toWalletId t of
           None \<Rightarrow> d
         | Some dst \<Rightarrow>
             updateWalletsWhereId dst
               (\<lambda>w. w\<lparr>w_balance := w_balance w - t_amount t, w_updatedAt := now\<rparr>)
               (updateWalletsWhereId (t_walletId t)
                  (\<lambda>w. w\<lparr>w_balance := w_balance w + t_amount t + numberOr (t_transferFee t) 0,
                          w_updatedAt := now\<rparr>) d))
      else d)"

text \<open>
  The argument of \<open>create\<close>: \<open>Omit<NewTransaction, "id" | "createdAt" | "updatedAt">\<close>.
  \<open>transfer_fee\<close> is the one optional column with a default: a missing key (\<open>None\<close>)
  stores the default 0, an explicit null (\<open>Some None\<close>) stores NULL.
\<close>

record NewTransaction =
  n_walletId :: string
  n_type :: string
  n_amount :: real
  n_categoryId :: "string option"
  n_description :: "string option"
  n_notes :: "string option"
  n_toWalletId :: "string option"
  n_transferFee :: "real option option"
  n_recurringId :: "string option"
  n_transactionDate :: date
  n_tags :: "string option"
  n_attachments :: "string option"

definition transactionRow :: "string \<Rightarrow> date \<Rightarrow> NewTransaction \<Rightarrow> Transaction" where
  "transactionRow newId now n =
     \<lparr>t_id = newId, t_walletId = n_walletId n, t_type = n_type n, t_amount = n_amount n,
      t_categoryId = n_categoryId n, t_description = n_description n, t_notes = n_notes n,
      t_toWalletId = n_toWalletId n,
      t_transferFee = (case n_transferFee n of None \<Rightarrow> Some 0 | Some fee \<Rightarrow> fee),
      t_recurringId = n_recurringId n, t_transactionDate = n_transactionDate n,
      t_tags = n_tags n, t_attachments = n_attachments n,
      t_createdAt = now, t_updatedAt = now\<rparr>"


definition TransactionService_getById :: "db \<Rightarrow> string \<Rightarrow> Transaction option" where
  "TransactionService_getById d i = find (\<lambda>t. t_id t = i) (transactions d)"

text \<open>
  The argument of \<open>update\<close>: \<open>Partial<Omit<Transaction, "id" | "createdAt">>\<close>. Its
  \<open>updatedAt\<close> key is left out: the object given to \<open>.set\<close> overwrites it with the clock.
\<close>

record TransactionPatch =
  u_walletId :: "string option"
  u_type :: "string option"
  u_amount :: "real option"
  u_categoryId :: "string option option"
  u_description :: "string option option"
  u_notes :: "string option option"
  u_toWalletId :: "string option option"
  u_transferFee :: "real option option"
  u_recurringId :: "string option option"
  u_transactionDate :: "date option"
  u_tags :: "string option option"
  u_attachments :: "string option option"

definition applyPatch :: "TransactionPatch \<Rightarrow> date \<Rightarrow> Transaction \<Rightarrow> Transaction" where
  "applyPatch u now t =
     t\<lparr>t_walletId := setCol (u_walletId u) (t_walletId t),
       t_type := setCol (u_type u) (t_type t),
       t_amount := setCol (u_amount u) (t_amount t),
       t_categoryId := setCol (u_categoryId u) (t_categoryId t),
       t_description := setCol (u_description u) (t_description t),
       t_notes := setCol (u_notes u) (t_notes t),
       t_toWalletId := setCol (u_toWalletId u) (t_toWalletId t),
       t_transferFee := setCol (u_transferFee u) (t_transferFee t),
       t_recurringId := setCol (u_recurringId u) (t_recurringId t),
       t_transactionDate := setCol (u_transactionDate u) (t_transactionDate t),
       t_tags := setCol (u_tags u) (t_tags t),
       t_attachments := setCol (u_attachments u) (t_attachments t),
       t_updatedAt := now\<rparr>"

text \<open>
  \<open>update\<close>. \<open>const [updated] = ... .returning()\<close> takes the first rewritten row; when no
  row has the id, \<open>updated\<close> is \<open>undefined\<close> and \<open>updateWalletBalance(updated)\<close> throws a
  TypeError on \<open>transaction.type\<close>.
\<close>

definition TransactionService_update :: "db \<Rightarrow> date \<Rightarrow> string \<Rightarrow> TransactionPatch \<Rightarrow> Transaction outcome" where
  "TransactionService_update d now i u =
     (let d1 = (case TransactionService_getById d i of
                  Some oldTransaction \<Rightarrow> reverseWalletBalance d now oldTransaction
                | None \<Rightarrow> d);
          d2 = d1\<lparr>transactions :=
                    map (\<lambda>t. if t_id t = i then applyPatch u now t else t) (transactions d1)\<rparr>
      in case filter (\<lambda>t. t_id t = i) (transactions d2) of
           [] \<Rightarrow> (d2, Inl TypeError)
         | updated # _ \<Rightarrow> (updateWalletBalance d2 now updated, Inr updated))"

text \<open>\<open>delete\<close>: silent when the id is unknown.\<close>

definition TransactionService_delete :: "db \<Rightarrow> date \<Rightarrow> string \<Rightarrow> db" where
  "TransactionService_delete d now i =
     (let d1 = (case TransactionService_getById d i of
                  Some t \<Rightarrow> reverseWalletBalance d now t
                | None \<Rightarrow> d)
      in d1\<lparr>transactions := filter (\<lambda>t. t_id t \<noteq> i) (transactions d1)\<rparr>)"

section \<open>TransactionService in the arithmetic of SQLite\<close>

text \<open>
  The columns \<open>balance\<close>, \<open>amount\<close> and \<open>transfer_fee\<close> are SQLite \<open>REAL\<close> columns, and a
  JavaScript number is the same thing: an IEEE 754 binary64 number. SQLite computes
  \<open>balance + amount\<close> and \<open>balance - amount\<close> in binary64, which gives the exact result
  rounded to the nearest binary64 number, and to the one with the even significand when
  two are equally near. A binary64 number is a multiple of a power of two, its quantum,
  by an integer below \<open>2^53\<close> in magnitude; the quantum of a number between \<open>2^e\<close> and
  \<open>2^(e+1)\<close> is \<open>2^(e-52)\<close>, and no quantum is below \<open>2^(-1074)\<close>. A result of magnitude
  \<open>2^1024\<close> or more, which binary64 replaces by an infinity, is outside this development.
\<close>

definition roundHalfEven :: "real \<Rightarrow> int" where
  "roundHalfEven x =
     (let n = \<lfloor>x\<rfloor>; r = x - of_int n
      in if r < 1 / 2 then n else if 1 / 2 < r then n + 1 else if even n then n else n + 1)"

definition quantum64 :: "real \<Rightarrow> real" where
  "quantum64 x = 2 powr of_int (max (\<lfloor>log 2 \<bar>x\<bar>\<rfloor> - 52) (- 1074))"

definition round64 :: "real \<Rightarrow> real" where
  "round64 x = (if x = 0 then 0 else of_int (roundHalfEven (x / quantum64 x)) * quantum64 x)"

text \<open>
  \<open>updateWalletBalance\<close> and \<open>reverseWalletBalance\<close> with every sum and difference
  rounded as SQLite rounds it; \<open>balance - amount - fee\<close> is two subtractions.
\<close>

definition updateWalletBalance64 :: "db \<Rightarrow> date \<Rightarrow> Transaction \<Rightarrow> db" where
  "updateWalletBalance64 d now t =
     (if t_type t = ''income'' then
        updateWalletsWhereId (t_walletId t)
          (\<lambda>w. w\<lparr>w_balance := round64 (w_balance w + t_amount t), w_updatedAt := now\<rparr>) d
      else if t_type t = ''expense'' then
        updateWalletsWhereId (t_walletId t)
          (\<lambda>w. w\<lparr>w_balance := round64 (w_balance w - t_amount t), w_updatedAt := now\<rparr>) d
      else if t_type t = ''transfer'' \<and> truthyString (t_toWalletId t) then
        (case t_toWalletId t of
           None \<Rightarrow> d
         | Some dst \<Rightarrow>
             updateWalletsWhereId dst
               (\<lambda>w. w\<lparr>w_balance := round64 (w_balance w + t_amount t), w_updatedAt := now\<rparr>)
               (updateWalletsWhereId (t_walletId t)
                  (\<lambda>w. w\<lparr>w_balance :=
                            round64 (round64 (w_balance w - t_amount t)
                                       - numberOr (t_transferFee t) 0),
                          w_updatedAt := now\<rparr>) d))
      else d)"

definition reverseWalletBalance64 :: "db \<Rightarrow> date \<Rightarrow> Transaction \<Rightarrow> db" where
  "reverseWalletBalance64 d now t =
     (if t_type t = ''income'' then
        updateWalletsWhereId (t_walletId t)
          (\<lambda>w. w\<lparr>w_balance := round64 (w_balance w - t_amount t), w_updatedAt := now\<rparr>) d
      else if t_type t = ''expense'' then
        updateWalletsWhereId (t_walletId t)
          (\<lambda>w. w\<lparr>w_balance := round64 (w_balance w + t_amount t), w_updatedAt := now\<rparr>) d
      else if t_type t = ''transfer'' \<and> truthyString (t_toWalletId t) then
        (case t_toWalletId t of
           None \<Rightarrow> d
         | Some dst \<Rightarrow>
             updateWalletsWhereId dst
               (\<lambda>w. w\<lparr>w_balance := round64 (w_balance w - t_amount t), w_updatedAt := now\<rparr>)
               (updateWalletsWhereId (t_walletId t)
                  (\<lambda>w. w\<lparr>w_balance :=
                            round64 (round64 (w_balance w + t_amount t)
                                       + numberOr (t_transferFee t) 0),
                          w_updatedAt := now\<rparr>) d))
      else d)"

text \<open>\<open>create\<close> and \<open>delete\<close> over the two.\<close>

definition TransactionService_create64 ::
  "db \<Rightarrow> date \<Rightarrow> string \<Rightarrow> NewTransaction \<Rightarrow> Transaction outcome" where
  "TransactionService_create64 d now newId n =
     (if newId \<in> set (map t_id (transactions d)) then (d, Inl SqliteConstraint)
      else
        let newTransaction = transactionRow newId now n;
            d1 = d\<lparr>transactions := transactions d @ [newTransaction]\<rparr>
        in (updateWalletBalance64 d1 now newTransaction, Inr newTransaction))"

definition TransactionService_delete64 :: "db \<Rightarrow> date \<Rightarrow> string \<Rightarrow> db" where
  "TransactionService_delete64 d now i =
     (let d1 = (case TransactionService_getById d i of
                  Some t \<Rightarrow> reverseWalletBalance64 d now t
                | None \<Rightarrow> d)
      in d1\<lparr>transactions := filter (\<lambda>t. t_id t \<noteq> i) (transactions d1)\<rparr>)"

section \<open>LendBorrowService (services/lendBorrow.service.ts)\<close>

text \<open>
  The argument of \<open>create\<close>. \<open>remainingAmount\<close> is an \<open>option\<close> so that a caller who
  leaves it out is covered as well as one who passes 0; \<open>status\<close> has the column default
  \<open>pending\<close>.
\<close>

record NewLendBorrow =
  nl_type :: string
  nl_personName :: string
  nl_amount :: real
  nl_remainingAmount :: "real option"
  nl_description :: "string option"
  nl_notes :: "string option"
  nl_dueDate :: "date option"
  nl_walletId :: "string option"
  nl_status :: "string option"

definition lendBorrowRow :: "string \<Rightarrow> date \<Rightarrow> NewLendBorrow \<Rightarrow> LendBorrow" where
  "lendBorrowRow newId now n =
     \<lparr>lb_id = newId, lb_type = nl_type n, lb_personName = nl_personName n,
      lb_amount = nl_amount n,
      lb_remainingAmount = numberOr (nl_remainingAmount n) (nl_amount n),
      lb_description = nl_description n, lb_notes = nl_notes n,
      lb_dueDate = nl_dueDate n, lb_walletId = nl_walletId n,
      lb_status = (case nl_status n of None \<Rightarrow> ''pending'' | Some st \<Rightarrow> st),
      lb_createdAt = now, lb_updatedAt = now\<rparr>"

text \<open>\<open>create\<close>, with \<open>remainingAmount: record.remainingAmount || record.amount\<close>.\<close>

definition LendBorrowService_create :: "db \<Rightarrow> date \<Rightarrow> string \<Rightarrow> NewLendBorrow \<Rightarrow> LendBorrow outcome" where
  "LendBorrowService_create d now newId n =
     (if newId \<in> set (map lb_id (lendBorrow d)) then (d, Inl SqliteConstraint)
      else
        let newRecord = lendBorrowRow newId now n
        in (d\<lparr>lendBorrow := lendBorrow d @ [newRecord]\<rparr>, Inr newRecord))"


record LendBorrowPatch =
  ul_type :: "string option"
  ul_personName :: "string option"
  ul_amount :: "real option"
  ul_remainingAmount :: "real option"
  ul_description :: "string option option"
  ul_notes :: "string option option"
  ul_dueDate :: "date option option"
  ul_walletId :: "string option option"
  ul_status :: "string option"


definition applyLendBorrowPatch :: "LendBorrowPatch \<Rightarrow> date \<Rightarrow> LendBorrow \<Rightarrow> LendBorrow" where
  "applyLendBorrowPatch u now r =
     r\<lparr>lb_type := setCol (ul_type u) (lb_type r),
       lb_personName := setCol (ul_personName u) (lb_personName r),
       lb_amount := setCol (ul_amount u) (lb_amount r),
       lb_remainingAmount := setCol (ul_remainingAmount u) (lb_remainingAmount r),
       lb_description := setCol (ul_description u) (lb_description r),
       lb_notes := setCol (ul_notes u) (lb_notes r),
       lb_dueDate := setCol (ul_dueDate u) (lb_dueDate r),
       lb_walletId := setCol (ul_walletId u) (lb_walletId r),
       lb_status := setCol (ul_status u) (lb_status r),
       lb_updatedAt := now\<rparr>"








section \<open>BudgetService (services/budget.service.ts)\<close>

record NewBudget =
  nb_categoryId :: string
  nb_amount :: real
  nb_period :: string
  nb_month :: "int option"
  nb_year :: "int option"

definition BudgetService_create :: "db \<Rightarrow> date \<Rightarrow> string \<Rightarrow> NewBudget \<Rightarrow> Budget outcome" where
  "BudgetService_create d now newId n =
     (if newId \<in> set (map b_id (budgets d)) then (d, Inl SqliteConstraint)
      else
        let newBudget =
          \<lparr>b_id = newId, b_categoryId = nb_categoryId n, b_amount = nb_amount n,
           b_period = nb_period n, b_month = nb_month n, b_year = nb_year n,
           b_createdAt = now, b_updatedAt = now\<rparr>
        in (d\<lparr>budgets := budgets d @ [newBudget]\<rparr>, Inr newBudget))"

text \<open>
  The filter of \<open>getByCategoryAndPeriod\<close>. A NULL month or year equals no number in SQL.
\<close>

definition inCategoryAndPeriod :: "string \<Rightarrow> int \<Rightarrow> int \<Rightarrow> Budget \<Rightarrow> bool" where
  "inCategoryAndPeriod categoryId month year b =
     (b_categoryId b = categoryId \<and> b_month b = Some month \<and> b_year b = Some year)"

definition getByCategoryAndPeriod :: "db \<Rightarrow> string \<Rightarrow> int \<Rightarrow> int \<Rightarrow> Budget option" where
  "getByCategoryAndPeriod d categoryId month year =
     find (inCategoryAndPeriod categoryId month year) (budgets d)"

record BudgetPatch =
  ub_categoryId :: "string option"
  ub_amount :: "real option"
  ub_period :: "string option"
  ub_month :: "int option option"
  ub_year :: "int option option"

definition applyBudgetPatch :: "BudgetPatch \<Rightarrow> date \<Rightarrow> Budget \<Rightarrow> Budget" where
  "applyBudgetPatch u now b =
     b\<lparr>b_categoryId := setCol (ub_categoryId u) (b_categoryId b),
       b_amount := setCol (ub_amount u) (b_amount b),
       b_period := setCol (ub_period u) (b_period b),
       b_month := setCol (ub_month u) (b_month b),
       b_year := setCol (ub_year u) (b_year b),
       b_updatedAt := now\<rparr>"

definition BudgetService_update ::
  "db \<Rightarrow> date \<Rightarrow> string \<Rightarrow> BudgetPatch \<Rightarrow> db \<times> Budget option" where
  "BudgetService_update d now i u =
     (let d1 = d\<lparr>budgets :=
                   map (\<lambda>b. if b_id b = i then applyBudgetPatch u now b else b) (budgets d)\<rparr>
      in (d1, find (\<lambda>b. b_id b = i) (budgets d1)))"

text \<open>
  \<open>upsertBudget\<close>; \<open>newId\<close> is read only on the insert path. The result is the row, or
  \<open>undefined\<close> as \<open>update\<close> may return it.
\<close>

definition upsertBudget ::
  "db \<Rightarrow> date \<Rightarrow> string \<Rightarrow> string \<Rightarrow> real \<Rightarrow> int \<Rightarrow> int \<Rightarrow> (Budget option) outcome" where
  "upsertBudget d now newId categoryId amount month year =
     (case getByCategoryAndPeriod d categoryId month year of
        Some existing \<Rightarrow>
          (case BudgetService_update d now (b_id existing)
                  \<lparr>ub_categoryId = None, ub_amount = Some amount, ub_period = None,
                   ub_month = None, ub_year = None\<rparr> of
             (d1, updated) \<Rightarrow> (d1, Inr updated))
      | None \<Rightarrow>
          (case BudgetService_create d now newId
                  \<lparr>nb_categoryId = categoryId, nb_amount = amount, nb_period = ''monthly'',
                   nb_month = Some month, nb_year = Some year\<rparr> of
             (d1, Inl e) \<Rightarrow> (d1, Inl e)
           | (d1, Inr b) \<Rightarrow> (d1, Inr (Some b))))"

section \<open>The Date methods used by the bill reminder service\<close>

text \<open>
  \<open>getMonth\<close>, \<open>setMonth\<close>, \<open>getFullYear\<close> and \<open>setFullYear\<close> as ECMAScript defines
  them, over time values in milliseconds. The local time zone is a parameter \<open>tz\<close>, the
  function \<open>LocalTZA\<close> of ECMAScript: \<open>tz True t\<close> is the offset of local time from UTC,
  in milliseconds, at the UTC time \<open>t\<close>, and \<open>tz False t\<close> is the offset at the local
  time \<open>t\<close>. Daylight saving is part of \<open>tz\<close>; a zone without it is a constant function.
  Time values are taken inside the range of valid Dates, so \<open>TimeClip\<close> is the identity.
\<close>

type_synonym zone = "bool \<Rightarrow> int \<Rightarrow> int"

definition msPerDay :: int where
  "msPerDay = 86400000"

definition Day :: "int \<Rightarrow> int" where
  "Day t = t div msPerDay"

definition TimeWithinDay :: "int \<Rightarrow> int" where
  "TimeWithinDay t = t mod msPerDay"

definition DaysInYear :: "int \<Rightarrow> int" where
  "DaysInYear y =
     (if y mod 4 \<noteq> 0 then 365 else if y mod 100 \<noteq> 0 then 366
      else if y mod 400 \<noteq> 0 then 365 else 366)"

definition DayFromYear :: "int \<Rightarrow> int" where
  "DayFromYear y =
     365 * (y - 1970) + (y - 1969) div 4 - (y - 1901) div 100 + (y - 1601) div 400"

text \<open>
  The year of a day number: the largest \<open>y\<close> with \<open>DayFromYear y \<le> dn\<close>, found from the
  mean length of a year (146097 days in 400 years) and one step of correction.
\<close>

definition yearFromDay :: "int \<Rightarrow> int" where
  "yearFromDay dn =
     (let y = 1970 + (dn * 400) div 146097
      in if dn < DayFromYear y then y - 1
         else if DayFromYear (y + 1) \<le> dn then y + 1
         else y)"

definition YearFromTime :: "int \<Rightarrow> int" where
  "YearFromTime t = yearFromDay (Day t)"

definition InLeapYear :: "int \<Rightarrow> int" where
  "InLeapYear t = (if DaysInYear (YearFromTime t) = 366 then 1 else 0)"

definition DayWithinYear :: "int \<Rightarrow> int" where
  "DayWithinYear t = Day t - DayFromYear (YearFromTime t)"

definition MonthFromTime :: "int \<Rightarrow> int" where
  "MonthFromTime t =
     (let dy = DayWithinYear t; leap = InLeapYear t
      in if dy < 31 then 0
         else if dy < 59 + leap then 1
         else if dy < 90 + leap then 2
         else if dy < 120 + leap then 3
         else if dy < 151 + leap then 4
         else if dy < 181 + leap then 5
         else if dy < 212 + leap then 6
         else if dy < 243 + leap then 7
         else if dy < 273 + leap then 8
         else if dy < 304 + leap then 9
         else if dy < 334 + leap then 10
         else 11)"

definition DateFromTime :: "int \<Rightarrow> int" where
  "DateFromTime t =
     (let dy = DayWithinYear t; leap = InLeapYear t; m = MonthFromTime t
      in if m = 0 then dy + 1
         else if m = 1 then dy - 30
         else if m = 2 then dy - 58 - leap
         else if m = 3 then dy - 89 - leap
         else if m = 4 then dy - 119 - leap
         else if m = 5 then dy - 150 - leap
         else if m = 6 then dy - 180 - leap
         else if m = 7 then dy - 211 - leap
         else if m = 8 then dy - 242 - leap
         else if m = 9 then dy - 272 - leap
         else if m = 10 then dy - 303 - leap
         else dy - 333 - leap)"

text \<open>The number of days of year \<open>y\<close> before its month \<open>mn\<close> (0 is January).\<close>

definition daysBeforeMonth :: "int \<Rightarrow> int \<Rightarrow> int" where
  "daysBeforeMonth y mn =
     (let leap = (if DaysInYear y = 366 then 1 else 0)
      in if mn = 0 then 0
         else if mn = 1 then 31
         else if mn = 2 then 59 + leap
         else if mn = 3 then 90 + leap
         else if mn = 4 then 120 + leap
         else if mn = 5 then 151 + leap
         else if mn = 6 then 181 + leap
         else if mn = 7 then 212 + leap
         else if mn = 8 then 243 + leap
         else if mn = 9 then 273 + leap
         else if mn = 10 then 304 + leap
         else 334 + leap)"

text \<open>
  \<open>MakeDay\<close>: the day number of the first of month \<open>month mod 12\<close> in year
  \<open>year + floor(month / 12)\<close>, plus \<open>date - 1\<close>.
\<close>

definition MakeDay :: "int \<Rightarrow> int \<Rightarrow> int \<Rightarrow> int" where
  "MakeDay year month date =
     (let ym = year + month div 12; mn = month mod 12
      in DayFromYear ym + daysBeforeMonth ym mn + date - 1)"

definition MakeDate :: "int \<Rightarrow> int \<Rightarrow> int" where
  "MakeDate day time = day * msPerDay + time"

definition LocalTime :: "zone \<Rightarrow> date \<Rightarrow> int" where
  "LocalTime tz t = t + tz True t"

definition UTC :: "zone \<Rightarrow> int \<Rightarrow> date" where
  "UTC tz t = t - tz False t"

definition getMonth :: "zone \<Rightarrow> date \<Rightarrow> int" where
  "getMonth tz d = MonthFromTime (LocalTime tz d)"

definition getFullYear :: "zone \<Rightarrow> date \<Rightarrow> int" where
  "getFullYear tz d = YearFromTime (LocalTime tz d)"

definition getDate :: "zone \<Rightarrow> date \<Rightarrow> int" where
  "getDate tz d = DateFromTime (LocalTime tz d)"

definition setMonth :: "zone \<Rightarrow> date \<Rightarrow> int \<Rightarrow> date" where
  "setMonth tz d month =
     (let t = LocalTime tz d
      in UTC tz (MakeDate (MakeDay (YearFromTime t) month (DateFromTime t)) (TimeWithinDay t)))"

definition setFullYear :: "zone \<Rightarrow> date \<Rightarrow> int \<Rightarrow> date" where
  "setFullYear tz d year =
     (let t = LocalTime tz d
      in UTC tz (MakeDate (MakeDay year (MonthFromTime t) (DateFromTime t)) (TimeWithinDay t)))"

section \<open>BillReminderService (services/billReminder.service.ts)\<close>

record NewBillReminder =
  nr_title :: string
  nr_amount :: "real option"
  nr_categoryId :: "string option"
  nr_walletId :: "string option"
  nr_dueDate :: date
  nr_reminderDate :: "date option"
  nr_isRecurring :: "bool option"
  nr_frequency :: "string option"
  nr_isPaid :: "bool option"
  nr_transactionId :: "string option"
  nr_notes :: "string option"

fun boolOr :: "bool option \<Rightarrow> bool \<Rightarrow> bool" where
  "boolOr None dflt = dflt"
| "boolOr (Some b) dflt = b"

text \<open>The row an insert of \<open>n\<close> stores; the two flags have the column default \<open>false\<close>.\<close>

definition billReminderRow :: "string \<Rightarrow> date \<Rightarrow> NewBillReminder \<Rightarrow> BillReminder" where
  "billReminderRow newId now n =
     \<lparr>r_id = newId, r_title = nr_title n, r_amount = nr_amount n,
      r_categoryId = nr_categoryId n, r_walletId = nr_walletId n,
      r_dueDate = nr_dueDate n, r_reminderDate = nr_reminderDate n,
      r_isRecurring = boolOr (nr_isRecurring n) False, r_frequency = nr_frequency n,
      r_isPaid = boolOr (nr_isPaid n) False, r_transactionId = nr_transactionId n,
      r_notes = nr_notes n, r_createdAt = now, r_updatedAt = now\<rparr>"

definition BillReminderService_create ::
  "db \<Rightarrow> date \<Rightarrow> string \<Rightarrow> NewBillReminder \<Rightarrow> BillReminder outcome" where
  "BillReminderService_create d now newId n =
     (if newId \<in> set (map r_id (billReminders d)) then (d, Inl SqliteConstraint)
      else
        let newReminder = billReminderRow newId now n
        in (d\<lparr>billReminders := billReminders d @ [newReminder]\<rparr>, Inr newReminder))"

definition BillReminderService_getById :: "db \<Rightarrow> string \<Rightarrow> BillReminder option" where
  "BillReminderService_getById d i = find (\<lambda>r. r_id r = i) (billReminders d)"

record BillReminderPatch =
  ur_title :: "string option"
  ur_amount :: "real option option"
  ur_categoryId :: "string option option"
  ur_walletId :: "string option option"
  ur_dueDate :: "date option"
  ur_reminderDate :: "date option option"
  ur_isRecurring :: "bool option"
  ur_frequency :: "string option option"
  ur_isPaid :: "bool option"
  ur_transactionId :: "string option option"
  ur_notes :: "string option option"

definition noBillReminderPatch :: BillReminderPatch where
  "noBillReminderPatch =
     \<lparr>ur_title = None, ur_amount = None, ur_categoryId = None, ur_walletId = None,
      ur_dueDate = None, ur_reminderDate = None, ur_isRecurring = None, ur_frequency = None,
      ur_isPaid = None, ur_transactionId = None, ur_notes = None\<rparr>"

definition applyBillReminderPatch ::
  "BillReminderPatch \<Rightarrow> date \<Rightarrow> BillReminder \<Rightarrow> BillReminder" where
  "applyBillReminderPatch u now r =
     r\<lparr>r_title := setCol (ur_title u) (r_title r),
       r_amount := setCol (ur_amount u) (r_amount r),
       r_categoryId := setCol (ur_categoryId u) (r_categoryId r),
       r_walletId := setCol (ur_walletId u) (r_walletId r),
       r_dueDate := setCol (ur_dueDate u) (r_dueDate r),
       r_reminderDate := setCol (ur_reminderDate u) (r_reminderDate r),
       r_isRecurring := setCol (ur_isRecurring u) (r_isRecurring r),
       r_frequency := setCol (ur_frequency u) (r_frequency r),
       r_isPaid := setCol (ur_isPaid u) (r_isPaid r),
       r_transactionId := setCol (ur_transactionId u) (r_transactionId r),
       r_notes := setCol (ur_notes u) (r_notes r),
       r_updatedAt := now\<rparr>"

definition BillReminderService_update ::
  "db \<Rightarrow> date \<Rightarrow> string \<Rightarrow> BillReminderPatch \<Rightarrow> db \<times> BillReminder option" where
  "BillReminderService_update d now i u =
     (let d1 = d\<lparr>billReminders :=
                   map (\<lambda>r. if r_id r = i then applyBillReminderPatch u now r else r)
                     (billReminders d)\<rparr>
      in (d1, find (\<lambda>r. r_id r = i) (billReminders d1)))"

text \<open>
  \<open>createNextRecurring\<close>. The result \<open>Inr None\<close> is the \<open>null\<close> the method returns without
  writing; \<open>newId\<close> is the id the inner \<open>create\<close> draws.
\<close>

definition createNextRecurring ::
  "db \<Rightarrow> zone \<Rightarrow> date \<Rightarrow> string \<Rightarrow> BillReminder \<Rightarrow> (BillReminder option) outcome" where
  "createNextRecurring d tz now newId reminder =
     (if \<not> r_isRecurring reminder \<or> \<not> truthyString (r_frequency reminder) then (d, Inr None)
      else if r_frequency reminder \<noteq> Some ''monthly'' \<and> r_frequency reminder \<noteq> Some ''yearly''
        then (d, Inr None)
      else
        let nextDueDate =
              (if r_frequency reminder = Some ''monthly''
               then setMonth tz (r_dueDate reminder) (getMonth tz (r_dueDate reminder) + 1)
               else setFullYear tz (r_dueDate reminder) (getFullYear tz (r_dueDate reminder) + 1));
            nextReminderDate =
              (case r_reminderDate reminder of
                 Some reminderDate \<Rightarrow> Some (nextDueDate - (r_dueDate reminder - reminderDate))
               | None \<Rightarrow> None)
        in (case BillReminderService_create d now newId
                   \<lparr>nr_title = r_title reminder, nr_amount = r_amount reminder,
                    nr_categoryId = r_categoryId reminder, nr_walletId = r_walletId reminder,
                    nr_dueDate = nextDueDate, nr_reminderDate = nextReminderDate,
                    nr_isRecurring = Some True, nr_frequency = r_frequency reminder,
                    nr_isPaid = Some False, nr_transactionId = None,
                    nr_notes = r_notes reminder\<rparr> of
              (d1, Inl e) \<Rightarrow> (d1, Inl e)
            | (d1, Inr created) \<Rightarrow> (d1, Inr (Some created))))"

text \<open>
  \<open>markAsPaid\<close>. The reminder handed to \<open>createNextRecurring\<close> is the row read before the
  update. A failure of the inner insert leaves the update in place.
\<close>

definition markAsPaid ::
  "db \<Rightarrow> zone \<Rightarrow> date \<Rightarrow> string \<Rightarrow> string \<Rightarrow> string option \<Rightarrow> (BillReminder option) outcome" where
  "markAsPaid d tz now newId i transactionId =
     (case BillReminderService_getById d i of
        None \<Rightarrow> (d, Inl (Error ''Bill reminder not found''))
      | Some reminder \<Rightarrow>
          (case BillReminderService_update d now i
                  (noBillReminderPatch\<lparr>ur_isPaid := Some True,
                     ur_transactionId :=
                       Some (if truthyString transactionId then transactionId else None)\<rparr>) of
             (d1, updated) \<Rightarrow>
               if r_isRecurring reminder \<and> truthyString (r_frequency reminder) then
                 (case createNextRecurring d1 tz now newId reminder of
                    (d2, Inl e) \<Rightarrow> (d2, Inl e)
                  | (d2, Inr created) \<Rightarrow> (d2, Inr updated))
               else (d1, Inr updated)))"

definition markAsUnpaid :: "db \<Rightarrow> date \<Rightarrow> string \<Rightarrow> db \<times> BillReminder option" where
  "markAsUnpaid d now i =
     BillReminderService_update d now i
       (noBillReminderPatch\<lparr>ur_isPaid := Some False, ur_transactionId := Some None\<rparr>)"

section \<open>The Balance Mutator's contract, as the specification words it\<close>

text \<open>
  The specification's table of \<open>apply(transaction, sign)\<close>: the change of the balance of
  wallet \<open>w\<close>. Income adds \<open>amount \<sqdot> sign\<close> to \<open>wallet_id\<close>, an expense subtracts it, a
  transfer subtracts \<open>(amount + fee) \<sqdot> sign\<close> from \<open>wallet_id\<close> and adds \<open>amount \<sqdot> sign\<close>
  to \<open>to_wallet_id\<close> (both changes add up when the two are the same wallet), and a
  transfer without a destination changes nothing. A destination is present when it is
  neither null nor the empty string.
\<close>

definition balanceDelta :: "Transaction \<Rightarrow> real \<Rightarrow> string \<Rightarrow> real" where
  "balanceDelta t sign w =
     (if t_type t = ''income'' then (if w = t_walletId t then t_amount t * sign else 0)
      else if t_type t = ''expense'' then (if w = t_walletId t then - t_amount t * sign else 0)
      else if t_type t = ''transfer'' \<and> truthyString (t_toWalletId t) then
        (if w = t_walletId t then - (t_amount t + numberOr (t_transferFee t) 0) * sign else 0)
        + (if Some w = t_toWalletId t then t_amount t * sign else 0)
      else 0)"

text \<open>The wallets a transaction refers to: one for income and expense, two for a transfer
  with a destination, none otherwise.\<close>

definition writesWallet :: "Transaction \<Rightarrow> string \<Rightarrow> bool" where
  "writesWallet t w =
     (if t_type t = ''income'' \<or> t_type t = ''expense'' then w = t_walletId t
      else if t_type t = ''transfer'' \<and> truthyString (t_toWalletId t)
        then w = t_walletId t \<or> Some w = t_toWalletId t
      else False)"

text \<open>A referenced wallet row gets the delta and a new \<open>updatedAt\<close>; any other row stays.\<close>

definition applyDelta :: "Transaction \<Rightarrow> real \<Rightarrow> date \<Rightarrow> Wallet \<Rightarrow> Wallet" where
  "applyDelta t sign now w =
     (if writesWallet t (w_id w)
      then w\<lparr>w_balance := w_balance w + balanceDelta t sign (w_id w), w_updatedAt := now\<rparr>
      else w)"

section \<open>Balances that create and delete pass through\<close>

text \<open>The finite binary64 numbers: the numbers that rounding leaves as they are, below
  \<open>2^1024\<close> in magnitude.\<close>

definition binary64 :: "real \<Rightarrow> bool" where
  "binary64 x \<longleftrightarrow> round64 x = x \<and> \<bar>x\<bar> < 2 ^ 1024"

text \<open>
  What \<open>create\<close> adds to the balance of the wallet with id \<open>w\<close>, one entry for each
  addition or subtraction that the store performs on that wallet, in the order of the
  code; and the same for the reversal that \<open>delete\<close> performs.
\<close>

definition createSteps :: "Transaction \<Rightarrow> string \<Rightarrow> real list" where
  "createSteps t w =
     (if t_type t = ''income'' then (if w = t_walletId t then [t_amount t] else [])
      else if t_type t = ''expense'' then (if w = t_walletId t then [- t_amount t] else [])
      else if t_type t = ''transfer'' \<and> truthyString (t_toWalletId t) then
        (if w = t_walletId t then [- t_amount t, - numberOr (t_transferFee t) 0] else [])
        @ (if Some w = t_toWalletId t then [t_amount t] else [])
      else [])"

definition deleteSteps :: "Transaction \<Rightarrow> string \<Rightarrow> real list" where
  "deleteSteps t w =
     (if t_type t = ''income'' then (if w = t_walletId t then [- t_amount t] else [])
      else if t_type t = ''expense'' then (if w = t_walletId t then [t_amount t] else [])
      else if t_type t = ''transfer'' \<and> truthyString (t_toWalletId t) then
        (if w = t_walletId t then [t_amount t, numberOr (t_transferFee t) 0] else [])
        @ (if Some w = t_toWalletId t then [- t_amount t] else [])
      else [])"

text \<open>The balances that exact arithmetic passes through when the steps are added to \<open>b\<close>
  one after the other, and the balance that binary64 arithmetic ends with.\<close>

fun runningBalances :: "real \<Rightarrow> real list \<Rightarrow> real list" where
  "runningBalances b [] = []"
| "runningBalances b (x # xs) = (b + x) # runningBalances (b + x) xs"

definition addAll64 :: "real \<Rightarrow> real list \<Rightarrow> real" where
  "addAll64 b xs = foldl (\<lambda>x y. round64 (x + y)) b xs"

text \<open>A wallet row after the steps \<open>steps (w_id w)\<close>: untouched when there is none.\<close>

definition addSteps64 :: "(string \<Rightarrow> real list) \<Rightarrow> date \<Rightarrow> Wallet \<Rightarrow> Wallet" where
  "addSteps64 steps now w =
     (if steps (w_id w) = [] then w
      else w\<lparr>w_balance := addAll64 (w_balance w) (steps (w_id w)), w_updatedAt := now\<rparr>)"

section \<open>Example data\<close>

definition exampleWallet :: "string \<Rightarrow> real \<Rightarrow> Wallet" where
  "exampleWallet i b =
     \<lparr>w_id = i, w_name = i, w_type = ''bank'', w_balance = b, w_currency = ''INR'',
      w_creditLimit = None, w_billingDate = None, w_dueDate = None, w_cashbackRate = None,
      w_icon = None, w_color = None, w_notes = None, w_isActive = True,
      w_createdAt = 0, w_updatedAt = 0\<rparr>"

definition exampleDb :: "Wallet list \<Rightarrow> db" where
  "exampleDb ws =
     \<lparr>wallets = ws, transactions = [], lendBorrow = [], lendBorrowPayments = [],
      budgets = [], billReminders = []\<rparr>"

definition exampleAB :: db where
  "exampleAB = exampleDb [exampleWallet ''A'' 1000, exampleWallet ''B'' 0]"

definition exampleDraft ::
  "string \<Rightarrow> string \<Rightarrow> real \<Rightarrow> string option \<Rightarrow> real option \<Rightarrow> NewTransaction" where
  "exampleDraft ty w a dst fee =
     \<lparr>n_walletId = w, n_type = ty, n_amount = a, n_categoryId = None, n_description = None,
      n_notes = None, n_toWalletId = dst, n_transferFee = Some fee, n_recurringId = None,
      n_transactionDate = 0, n_tags = None, n_attachments = None\<rparr>"

definition noTransactionPatch :: TransactionPatch where
  "noTransactionPatch =
     \<lparr>u_walletId = None, u_type = None, u_amount = None, u_categoryId = None,
      u_description = None, u_notes = None, u_toWalletId = None, u_transferFee = None,
      u_recurringId = None, u_transactionDate = None, u_tags = None, u_attachments = None\<rparr>"

definition exampleExpense :: Transaction where
  "exampleExpense = transactionRow ''t1'' 1 (exampleDraft ''expense'' ''A'' 200 None None)"


section \<open>The Debt Tracker's status rules, as the specification words them\<close>




text \<open>A loan of 5000 and its payments.\<close>

definition exampleLoan :: "real \<Rightarrow> real option \<Rightarrow> NewLendBorrow" where
  "exampleLoan a r =
     \<lparr>nl_type = ''lent'', nl_personName = ''Asha'', nl_amount = a, nl_remainingAmount = r,
      nl_description = None, nl_notes = None, nl_dueDate = None, nl_walletId = None,
      nl_status = None\<rparr>"









section \<open>The calendar\<close>

text \<open>The length of month \<open>mn\<close> (0 is January) of year \<open>y\<close>.\<close>

definition daysInMonth :: "int \<Rightarrow> int \<Rightarrow> int" where
  "daysInMonth y mn =
     (if mn = 11 then DaysInYear y else daysBeforeMonth y (mn + 1)) - daysBeforeMonth y mn"

text \<open>The local time value of day \<open>dt\<close> of month \<open>mn\<close> of year \<open>y\<close>, \<open>tm\<close> milliseconds
  after midnight.\<close>

definition civilTime :: "int \<Rightarrow> int \<Rightarrow> int \<Rightarrow> int \<Rightarrow> int" where
  "civilTime y mn dt tm = MakeDate (MakeDay y mn dt) tm"

text \<open>\<open>new Date(y, mn, dt)\<close>: the time value of local midnight on that day.\<close>

definition localDate :: "zone \<Rightarrow> int \<Rightarrow> int \<Rightarrow> int \<Rightarrow> date" where
  "localDate tz y mn dt = UTC tz (MakeDate (MakeDay y mn dt) 0)"

text \<open>The zone whose offset from UTC is always \<open>off\<close> milliseconds; UTC itself is
  \<open>fixedZone 0\<close>.\<close>

definition fixedZone :: "int \<Rightarrow> zone" where
  "fixedZone off = (\<lambda>isUTC t. off)"

section \<open>The Bill Reminder Scheduler's contract, as the specification words it\<close>

text \<open>The row of a reminder once marked paid, and once marked unpaid.\<close>

definition paidRow :: "date \<Rightarrow> string option \<Rightarrow> BillReminder \<Rightarrow> BillReminder" where
  "paidRow now transactionId r =
     r\<lparr>r_isPaid := True,
       r_transactionId := (if truthyString transactionId then transactionId else None),
       r_updatedAt := now\<rparr>"

definition unpaidRow :: "date \<Rightarrow> BillReminder \<Rightarrow> BillReminder" where
  "unpaidRow now r = r\<lparr>r_isPaid := False, r_transactionId := None, r_updatedAt := now\<rparr>"

text \<open>The due date one period on: next month for a monthly reminder, next year otherwise.\<close>

definition nextDueDate :: "zone \<Rightarrow> BillReminder \<Rightarrow> date" where
  "nextDueDate tz r =
     (if r_frequency r = Some ''monthly''
      then setMonth tz (r_dueDate r) (getMonth tz (r_dueDate r) + 1)
      else setFullYear tz (r_dueDate r) (getFullYear tz (r_dueDate r) + 1))"

text \<open>
  The successor of a recurring reminder: the same title, amount, category, wallet, notes
  and frequency, the due date one period on, the reminder date as far before the new due
  date as the old one was before the old due date, unpaid and linked to no transaction.
\<close>

definition successorOf :: "zone \<Rightarrow> date \<Rightarrow> string \<Rightarrow> BillReminder \<Rightarrow> BillReminder" where
  "successorOf tz now newId r =
     r\<lparr>r_id := newId,
       r_dueDate := nextDueDate tz r,
       r_reminderDate := map_option (\<lambda>rd. nextDueDate tz r - (r_dueDate r - rd)) (r_reminderDate r),
       r_isRecurring := True, r_isPaid := False, r_transactionId := None,
       r_createdAt := now, r_updatedAt := now\<rparr>"

text \<open>A monthly bill with the given due date and reminder date, alone in its table.\<close>

definition exampleBill :: "date \<Rightarrow> date option \<Rightarrow> BillReminder" where
  "exampleBill due reminder =
     \<lparr>r_id = ''r1'', r_title = ''Rent'', r_amount = Some 12000, r_categoryId = None,
      r_walletId = None, r_dueDate = due, r_reminderDate = reminder, r_isRecurring = True,
      r_frequency = Some ''monthly'', r_isPaid = False, r_transactionId = None,
      r_notes = None, r_createdAt = 0, r_updatedAt = 0\<rparr>"

definition exampleBills :: "BillReminder \<Rightarrow> db" where
  "exampleBills r = (exampleDb [])\<lparr>billReminders := [r]\<rparr>"

text \<open>The rent due 2024-03-15 with the reminder date 2024-03-12, both at midnight UTC.\<close>

definition exampleRent :: BillReminder where
  "exampleRent =
     exampleBill (localDate (fixedZone 0) 2024 2 15) (Some (localDate (fixedZone 0) 2024 2 12))"

text \<open>The same bill with another frequency and no reminder date.\<close>

definition exampleBillEvery :: "string \<Rightarrow> date \<Rightarrow> BillReminder" where
  "exampleBillEvery f due = (exampleBill due None)\<lparr>r_frequency := Some f\<rparr>"

section \<open>Properties of the transaction service\<close>

subsection \<open>Lists as tables\<close>

lemma find_append_fresh:
  "i \<notin> set (map k xs) \<Longrightarrow> find (\<lambda>t. k t = i) (xs @ [x]) = (if k x = i then Some x else None)"
  by (induction xs) auto

lemma filter_fresh:
  "i \<notin> set (map k xs) \<Longrightarrow> filter (\<lambda>t. k t \<noteq> i) xs = xs"
  by (induction xs) auto


lemma find_None_filter_map:
  "find (\<lambda>t. k t = i) xs = None \<Longrightarrow>
   map (\<lambda>t. if k t = i then f t else t) xs = xs \<and> filter (\<lambda>t. k t = i) xs = []"
  by (induction xs) (auto split: if_splits)

subsection \<open>The two balance helpers against the contract\<close>




lemma applyDelta_id [simp]: "w_id (applyDelta t sg now w) = w_id w"
  by (simp add: applyDelta_def)




subsection \<open>Rounding to binary64\<close>

lemma roundHalfEven_of_int [simp]: "roundHalfEven (of_int n) = n"
  by (simp add: roundHalfEven_def)

lemma quantum64_pos: "0 < quantum64 x"
  by (simp add: quantum64_def)

lemma round64_multiple:
  assumes "x = of_int m * quantum64 x"
  shows "round64 x = x"
proof (cases "x = 0")
  case True
  then show ?thesis by (simp add: round64_def)
next
  case False
  have "x / quantum64 x = of_int m"
    using assms quantum64_pos [of x] by (metis nonzero_eq_divide_eq less_irrefl)
  then show ?thesis
    using assms False by (simp add: round64_def)
qed

lemma two_powr_nat: "(2::real) powr real_of_int (int k) = 2 ^ k"
  by (simp add: powr_realpow)

lemma quantum64_at:
  assumes "2 ^ k \<le> \<bar>x\<bar>" and "\<bar>x\<bar> < 2 ^ (k + 1)"
  shows "quantum64 x = 2 powr (of_int (int k - 52))"
proof -
  have pos: "0 < \<bar>x\<bar>"
    using assms(1) by (smt (verit) zero_less_power)
  have "2 powr real_of_int (int k + 1) = (2::real) ^ (k + 1)"
    using two_powr_nat [of "k + 1"] by (simp add: add.commute)
  then have "\<lfloor>log 2 \<bar>x\<bar>\<rfloor> = int k"
    using assms pos two_powr_nat [of k]
    by (subst floor_log_eq_powr_iff) simp_all
  then show ?thesis
    by (simp add: quantum64_def max_def)
qed

lemma round64_int:
  fixes n :: int
  assumes "\<bar>n\<bar> \<le> 2 ^ 53"
  shows "round64 (of_int n) = of_int n"
proof (cases "n = 0")
  case True
  then show ?thesis by (simp add: round64_def)
next
  case False
  define x :: real where "x = of_int n"
  define k where "k = \<lfloor>log 2 \<bar>x\<bar>\<rfloor>"
  have x1: "1 \<le> \<bar>x\<bar>" and x53: "\<bar>x\<bar> \<le> 2 ^ 53"
    using False assms unfolding x_def
    by (simp_all flip: of_int_abs add: of_int_le_numeral_power_cancel_iff)
  have bounds: "2 powr real_of_int k \<le> \<bar>x\<bar>" "\<bar>x\<bar> < 2 powr real_of_int (k + 1)"
    using x1 floor_log_eq_powr_iff [of "\<bar>x\<bar>" 2 k] by (simp_all add: k_def)
  have k0: "0 \<le> k"
    using x1 by (simp add: k_def)
  have k53: "k \<le> 53"
  proof (rule ccontr)
    assume "\<not> k \<le> 53"
    then have "(2::real) powr 54 \<le> 2 powr real_of_int k"
      by (intro powr_mono) simp_all
    then show False
      using bounds(1) x53 by simp
  qed
  have "max (k - 52) (- 1074) = k - 52"
    using k0 by simp
  then have q: "quantum64 x = 2 powr real_of_int (k - 52)"
    unfolding quantum64_def k_def [symmetric] by simp
  show ?thesis
  proof (cases "k \<le> 52")
    case True
    define m where "m = nat (52 - k)"
    have "(2::real) powr real_of_int (k - 52) = 1 / 2 ^ m"
    proof (cases "k = 52")
      case True
      then show ?thesis by (simp add: m_def)
    next
      case False
      then have "k - 52 < 0"
        using \<open>k \<le> 52\<close> by simp
      then show ?thesis
        using powr_int [of 2 "k - 52"] by (simp add: m_def)
    qed
    then have "quantum64 x = 1 / 2 ^ m"
      by (simp only: q)
    then have "x = of_int (n * 2 ^ m) * quantum64 x"
      by (simp add: x_def)
    then show ?thesis
      unfolding x_def [symmetric] by (rule round64_multiple)
  next
    case False
    then have k: "k = 53"
      using k53 by simp
    have "2 ^ 53 \<le> \<bar>x\<bar>"
      using bounds(1) by (simp add: k powr_realpow)
    then have "\<bar>n\<bar> = 2 ^ 53"
      using assms unfolding x_def
      by (simp flip: of_int_abs add: numeral_power_le_of_int_cancel_iff)
    then have "n = 9007199254740992 \<or> n = - 9007199254740992"
      by (simp add: abs_if split: if_splits)
    then have ev: "n = 2 * (n div 2)"
      by auto
    have "quantum64 x = 2"
      by (simp add: q k)
    then have "x = of_int (n div 2) * quantum64 x"
      using ev by (simp add: x_def)
    then show ?thesis
      unfolding x_def [symmetric] by (rule round64_multiple)
  qed
qed

lemma binary64_int:
  fixes n :: int
  assumes "\<bar>n\<bar> \<le> 2 ^ 53"
  shows "binary64 (of_int n)"
proof -
  have "\<bar>real_of_int n\<bar> \<le> 2 ^ 53"
    using assms by (simp flip: of_int_abs add: of_int_le_numeral_power_cancel_iff)
  moreover have "(2::real) ^ 53 < 2 ^ 1024"
    by (rule power_strict_increasing) simp_all
  ultimately have "\<bar>real_of_int n\<bar> < 2 ^ 1024"
    by (rule le_less_trans)
  then show ?thesis
    unfolding binary64_def using round64_int [OF assms] by blast
qed

lemma round64_above_2_53: "round64 9007199254740993 = 9007199254740992"
proof -
  have "quantum64 9007199254740993 = 2 powr (of_int (int 53 - 52))"
    by (rule quantum64_at) simp_all
  then have q: "quantum64 9007199254740993 = 2"
    by simp
  show ?thesis
    by (simp add: round64_def q roundHalfEven_def)
qed

lemma round64_below_2_53: "round64 9007199254740991 = 9007199254740991"
  using round64_int [of 9007199254740991] by simp

subsection \<open>Create, then delete\<close>

lemma transactionRow_id [simp]: "t_id (transactionRow newId now n) = newId"
  by (simp add: transactionRow_def)

lemma updateWalletBalance64_eq:
  "updateWalletBalance64 d now t = d\<lparr>wallets := map (addSteps64 (createSteps t) now) (wallets d)\<rparr>"
  by (cases "t_toWalletId t")
     (auto simp: updateWalletBalance64_def updateWalletsWhereId_def addSteps64_def[abs_def]
        createSteps_def addAll64_def)

lemma reverseWalletBalance64_eq:
  "reverseWalletBalance64 d now t = d\<lparr>wallets := map (addSteps64 (deleteSteps t) now) (wallets d)\<rparr>"
  by (cases "t_toWalletId t")
     (auto simp: reverseWalletBalance64_def updateWalletsWhereId_def addSteps64_def[abs_def]
        deleteSteps_def addAll64_def)

lemma addAll64_exact:
  "list_all binary64 (runningBalances b xs) \<Longrightarrow> addAll64 b xs = b + sum_list xs"
proof (induction xs arbitrary: b)
  case Nil
  then show ?case by (simp add: addAll64_def)
next
  case (Cons x xs)
  then have "binary64 (b + x)" and rest: "list_all binary64 (runningBalances (b + x) xs)"
    by simp_all
  then have "round64 (b + x) = b + x"
    by (simp add: binary64_def)
  then show ?case
    using Cons.IH [OF rest] by (simp add: addAll64_def)
qed

lemma addAll64_append: "addAll64 b (xs @ ys) = addAll64 (addAll64 b xs) ys"
  by (simp add: addAll64_def)

lemma runningBalances_append:
  "runningBalances b (xs @ ys) = runningBalances b xs @ runningBalances (b + sum_list xs) ys"
  by (induction xs arbitrary: b) (simp_all add: add.assoc)

lemma steps_cancel: "sum_list (createSteps t w @ deleteSteps t w) = 0"
  by (simp add: createSteps_def deleteSteps_def)

lemma createSteps_sum: "sum_list (createSteps t w) = balanceDelta t 1 w"
  by (simp add: createSteps_def balanceDelta_def)

lemma addSteps64_id [simp]: "w_id (addSteps64 steps now w) = w_id w"
  by (simp add: addSteps64_def)

lemma addSteps64_balance:
  "w_balance (addSteps64 steps now w) = addAll64 (w_balance w) (steps (w_id w))"
  by (simp add: addSteps64_def addAll64_def)

lemma round_trip_row:
  assumes "list_all binary64
             (runningBalances (w_balance w) (createSteps t (w_id w) @ deleteSteps t (w_id w)))"
  shows "w_balance (addSteps64 (createSteps t) now w) = w_balance w + balanceDelta t 1 (w_id w)"
    and "w_balance (addSteps64 (deleteSteps t) now' (addSteps64 (createSteps t) now w)) = w_balance w"
proof -
  have "list_all binary64 (runningBalances (w_balance w) (createSteps t (w_id w)))"
    using assms by (simp add: runningBalances_append)
  then show "w_balance (addSteps64 (createSteps t) now w) = w_balance w + balanceDelta t 1 (w_id w)"
    by (simp add: addSteps64_balance addAll64_exact createSteps_sum)
  have "w_balance (addSteps64 (deleteSteps t) now' (addSteps64 (createSteps t) now w))
          = addAll64 (w_balance w) (createSteps t (w_id w) @ deleteSteps t (w_id w))"
    by (simp add: addSteps64_balance addAll64_append)
  also have "\<dots> = w_balance w + sum_list (createSteps t (w_id w) @ deleteSteps t (w_id w))"
    using assms by (rule addAll64_exact)
  also have "\<dots> = w_balance w"
    by (simp only: steps_cancel add_0_right)
  finally show "w_balance (addSteps64 (deleteSteps t) now' (addSteps64 (createSteps t) now w))
                  = w_balance w" .
qed

lemma create64_fresh:
  assumes "newId \<notin> set (map t_id (transactions d))"
  shows "TransactionService_create64 d now newId n =
           (d\<lparr>transactions := transactions d @ [transactionRow newId now n],
              wallets := map (addSteps64 (createSteps (transactionRow newId now n)) now) (wallets d)\<rparr>,
            Inr (transactionRow newId now n))"
  using assms by (simp add: TransactionService_create64_def Let_def updateWalletBalance64_eq)

lemma delete64_created:
  assumes "newId \<notin> set (map t_id (transactions d))"
  shows "TransactionService_delete64 (fst (TransactionService_create64 d now newId n)) now' newId
           = d\<lparr>wallets := map (addSteps64 (deleteSteps (transactionRow newId now n)) now')
                             (map (addSteps64 (createSteps (transactionRow newId now n)) now)
                                (wallets d))\<rparr>"
proof -
  define row where "row = transactionRow newId now n"
  define d1 where "d1 = fst (TransactionService_create64 d now newId n)"
  have d1: "d1 = d\<lparr>transactions := transactions d @ [row],
                    wallets := map (addSteps64 (createSteps row) now) (wallets d)\<rparr>"
    unfolding d1_def row_def by (simp add: create64_fresh [OF assms])
  have found: "TransactionService_getById d1 newId = Some row"
    using assms
    by (simp add: d1 TransactionService_getById_def find_append_fresh row_def del: set_map)
  have "TransactionService_delete64 d1 now' newId =
          d1\<lparr>wallets := map (addSteps64 (deleteSteps row) now') (wallets d1),
             transactions := filter (\<lambda>t. t_id t \<noteq> newId) (transactions d1)\<rparr>"
    by (simp add: TransactionService_delete64_def found reverseWalletBalance64_eq)
  also have "\<dots> = d\<lparr>wallets := map (addSteps64 (deleteSteps row) now')
                                (map (addSteps64 (createSteps row) now) (wallets d))\<rparr>"
    using filter_fresh [OF assms] by (simp add: d1 row_def)
  finally show ?thesis
    unfolding d1_def row_def .
qed

text \<open>
  Claim C2, as the code has it. From any database and for any draft, of any type, whose
  new id is not yet taken, let \<open>create\<close> return the row \<open>t\<close>: the row with the new id and
  the columns of the draft. Suppose that no addition or subtraction of the two calls
  rounds: for every wallet row, each balance that exact arithmetic passes through during
  \<open>create\<close> and the \<open>delete\<close> after it is a binary64 number. Then \<open>create\<close> changes each
  balance by the contract's delta, and \<open>delete\<close> on the row's id gives every wallet row
  the balance it had before the \<open>create\<close>, exactly; the transaction table is as before
  too. Whole numbers of at most \<open>2^53\<close> in magnitude are binary64 numbers.
\<close>

theorem create_then_delete_restores:
  assumes "newId \<notin> set (map t_id (transactions d))"
    and "snd (TransactionService_create64 d now newId n) = Inr t"
    and "\<forall>w \<in> set (wallets d).
           list_all binary64
             (runningBalances (w_balance w) (createSteps t (w_id w) @ deleteSteps t (w_id w)))"
  shows "t = \<lparr>t_id = newId, t_walletId = n_walletId n, t_type = n_type n, t_amount = n_amount n,
              t_categoryId = n_categoryId n, t_description = n_description n,
              t_notes = n_notes n, t_toWalletId = n_toWalletId n,
              t_transferFee = (case n_transferFee n of None \<Rightarrow> Some 0 | Some fee \<Rightarrow> fee),
              t_recurringId = n_recurringId n, t_transactionDate = n_transactionDate n,
              t_tags = n_tags n, t_attachments = n_attachments n,
              t_createdAt = now, t_updatedAt = now\<rparr>
    \<and> map (\<lambda>w. (w_id w, w_balance w))
          (wallets (fst (TransactionService_create64 d now newId n)))
        = map (\<lambda>w. (w_id w, w_balance w + balanceDelta t 1 (w_id w))) (wallets d)
    \<and> map (\<lambda>w. (w_id w, w_balance w))
          (wallets (TransactionService_delete64
                     (fst (TransactionService_create64 d now newId n)) now' newId))
        = map (\<lambda>w. (w_id w, w_balance w)) (wallets d)
    \<and> transactions (TransactionService_delete64
                       (fst (TransactionService_create64 d now newId n)) now' newId)
        = transactions d
    \<and> (\<forall>k. \<bar>k\<bar> \<le> 2 ^ 53 \<longrightarrow> binary64 (of_int k))"
proof -
  have t: "t = transactionRow newId now n"
    using assms(2) by (simp add: create64_fresh [OF assms(1)])
  have row: "\<And>w. w \<in> set (wallets d) \<Longrightarrow>
      w_balance (addSteps64 (createSteps t) now w) = w_balance w + balanceDelta t 1 (w_id w)
    \<and> w_balance (addSteps64 (deleteSteps t) now' (addSteps64 (createSteps t) now w)) = w_balance w"
    using assms(3) round_trip_row by blast
  have created: "map (\<lambda>w. (w_id w, w_balance w))
          (wallets (fst (TransactionService_create64 d now newId n)))
        = map (\<lambda>w. (w_id w, w_balance w + balanceDelta t 1 (w_id w))) (wallets d)"
    using row by (simp add: create64_fresh [OF assms(1)] t [symmetric])
  have deleted: "map (\<lambda>w. (w_id w, w_balance w))
          (wallets (TransactionService_delete64
                     (fst (TransactionService_create64 d now newId n)) now' newId))
        = map (\<lambda>w. (w_id w, w_balance w)) (wallets d)"
    using row by (simp add: delete64_created [OF assms(1)] t [symmetric])
  have table: "transactions (TransactionService_delete64
                       (fst (TransactionService_create64 d now newId n)) now' newId)
        = transactions d"
    by (simp add: delete64_created [OF assms(1)])
  have fields: "t = \<lparr>t_id = newId, t_walletId = n_walletId n, t_type = n_type n, t_amount = n_amount n,
              t_categoryId = n_categoryId n, t_description = n_description n,
              t_notes = n_notes n, t_toWalletId = n_toWalletId n,
              t_transferFee = (case n_transferFee n of None \<Rightarrow> Some 0 | Some fee \<Rightarrow> fee),
              t_recurringId = n_recurringId n, t_transactionDate = n_transactionDate n,
              t_tags = n_tags n, t_attachments = n_attachments n,
              t_createdAt = now, t_updatedAt = now\<rparr>"
    by (simp add: t transactionRow_def)
  have ints: "\<forall>k. \<bar>k\<bar> \<le> 2 ^ 53 \<longrightarrow> binary64 (of_int k)"
    using binary64_int by blast
  show ?thesis
    by (rule conjI [OF fields conjI [OF created conjI [OF deleted conjI [OF table ints]]]])
qed

text \<open>The specification's example: wallet A holds 1000, an expense of 200 is created
  (A holds 800) and deleted (A holds 1000). The balances passed through are 800 and
  1000, both binary64 numbers.\<close>

theorem create_then_delete_restores_witness:
  "''t1'' \<notin> set (map t_id (transactions exampleAB))
   \<and> snd (TransactionService_create64 exampleAB 1 ''t1''
            (exampleDraft ''expense'' ''A'' 200 None None)) = Inr exampleExpense
   \<and> map (\<lambda>w. runningBalances (w_balance w)
                 (createSteps exampleExpense (w_id w) @ deleteSteps exampleExpense (w_id w)))
       (wallets exampleAB) = [[800, 1000], []]
   \<and> binary64 800 \<and> binary64 1000
   \<and> map (\<lambda>w. (w_id w, w_balance w))
       (wallets (fst (TransactionService_create64 exampleAB 1 ''t1''
                        (exampleDraft ''expense'' ''A'' 200 None None))))
     = [(''A'', 800), (''B'', 0)]
   \<and> map (\<lambda>w. (w_id w, w_balance w))
       (wallets (TransactionService_delete64
                  (fst (TransactionService_create64 exampleAB 1 ''t1''
                          (exampleDraft ''expense'' ''A'' 200 None None))) 2 ''t1''))
     = [(''A'', 1000), (''B'', 0)]"
proof -
  have fresh: "''t1'' \<notin> set (map t_id (transactions exampleAB))"
    by (simp add: exampleAB_def exampleDb_def)
  have res: "snd (TransactionService_create64 exampleAB 1 ''t1''
                    (exampleDraft ''expense'' ''A'' 200 None None)) = Inr exampleExpense"
    by (simp add: TransactionService_create64_def exampleAB_def exampleDb_def exampleExpense_def
          Let_def)
  have running: "map (\<lambda>w. runningBalances (w_balance w)
                 (createSteps exampleExpense (w_id w) @ deleteSteps exampleExpense (w_id w)))
       (wallets exampleAB) = [[800, 1000], []]"
    by (simp add: exampleAB_def exampleDb_def exampleWallet_def createSteps_def deleteSteps_def
          exampleExpense_def transactionRow_def exampleDraft_def)
  have b800: "binary64 800" and b1000: "binary64 1000"
    using binary64_int [of 800] binary64_int [of 1000] by simp_all
  have exact: "\<forall>w \<in> set (wallets exampleAB).
           list_all binary64
             (runningBalances (w_balance w)
                (createSteps exampleExpense (w_id w) @ deleteSteps exampleExpense (w_id w)))"
    using b800 b1000
    by (simp add: exampleAB_def exampleDb_def exampleWallet_def createSteps_def deleteSteps_def
          exampleExpense_def transactionRow_def exampleDraft_def)
  note round_trip = create_then_delete_restores [OF fresh res exact, of 2]
  have "map (\<lambda>w. (w_id w, w_balance w + balanceDelta exampleExpense 1 (w_id w))) (wallets exampleAB)
          = [(''A'', 800), (''B'', 0)]"
    by (simp add: exampleAB_def exampleDb_def exampleWallet_def balanceDelta_def
          exampleExpense_def transactionRow_def exampleDraft_def)
  moreover have "map (\<lambda>w. (w_id w, w_balance w)) (wallets exampleAB) = [(''A'', 1000), (''B'', 0)]"
    by (simp add: exampleAB_def exampleDb_def exampleWallet_def)
  ultimately show ?thesis
    using fresh res running b800 b1000 round_trip by simp
qed

text \<open>
  The claim says that the balance comes back exactly, for every wallet state and every
  transaction. Wallet A holds \<open>2^53 = 9007199254740992\<close> and an income of 1 is created:
  the sum \<open>2^53 + 1\<close> lies halfway between two binary64 numbers and is rounded to \<open>2^53\<close>,
  so the balance stays. The delete subtracts 1 and leaves \<open>2^53 - 1\<close>.
\<close>

theorem create_then_delete_rounding_counterexample:
  "map w_balance (wallets (exampleDb [exampleWallet ''A'' 9007199254740992]))
     = [9007199254740992]
   \<and> map w_balance
       (wallets (fst (TransactionService_create64 (exampleDb [exampleWallet ''A'' 9007199254740992])
                        1 ''t1'' (exampleDraft ''income'' ''A'' 1 None None))))
     = [9007199254740992]
   \<and> map w_balance
       (wallets (TransactionService_delete64
                  (fst (TransactionService_create64 (exampleDb [exampleWallet ''A'' 9007199254740992])
                          1 ''t1'' (exampleDraft ''income'' ''A'' 1 None None))) 2 ''t1''))
     = [9007199254740991]"
proof -
  let ?d = "exampleDb [exampleWallet ''A'' 9007199254740992]"
  let ?row = "transactionRow ''t1'' 1 (exampleDraft ''income'' ''A'' 1 None None)"
  have created: "fst (TransactionService_create64 ?d 1 ''t1'' (exampleDraft ''income'' ''A'' 1 None None))
      = ?d\<lparr>transactions := [?row],
            wallets := [(exampleWallet ''A'' 9007199254740992)\<lparr>w_updatedAt := 1\<rparr>]\<rparr>"
    by (simp add: TransactionService_create64_def updateWalletBalance64_def
          updateWalletsWhereId_def exampleDb_def exampleWallet_def exampleDraft_def
          transactionRow_def Let_def round64_above_2_53)
  have deleted: "map w_balance (wallets (TransactionService_delete64
        (?d\<lparr>transactions := [?row],
            wallets := [(exampleWallet ''A'' 9007199254740992)\<lparr>w_updatedAt := 1\<rparr>]\<rparr>) 2 ''t1''))
      = [9007199254740991]"
    by (simp add: TransactionService_delete64_def TransactionService_getById_def
          reverseWalletBalance64_def updateWalletsWhereId_def exampleDb_def exampleWallet_def
          exampleDraft_def transactionRow_def Let_def round64_below_2_53)
  show ?thesis
    unfolding created using deleted by (simp add: exampleDb_def exampleWallet_def)
qed

subsection \<open>Update\<close>

lemma applyPatch_id [simp]: "t_id (applyPatch u now t) = t_id t"
  by (simp add: applyPatch_def)






text \<open>
  Claim C4. For an id that no transaction has, \<open>update\<close> fails and leaves the whole
  database as it was: no wallet balance and no transaction row changes, the patch is
  not applied. The failure is the TypeError of reading \<open>type\<close> from the missing row, not
  an error that says the transaction was not found.
\<close>

theorem update_unknown_id:
  assumes "TransactionService_getById d i = None"
  shows "TransactionService_update d now i u = (d, Inl TypeError)"
  using find_None_filter_map [of t_id i "transactions d" "applyPatch u now"] assms
  by (simp add: TransactionService_update_def TransactionService_getById_def)

theorem update_unknown_id_witness:
  "TransactionService_getById exampleAB ''missing'' = None
   \<and> TransactionService_update exampleAB 2 ''missing'' (noTransactionPatch\<lparr>u_amount := Some 5\<rparr>)
       = (exampleAB, Inl TypeError)"
proof -
  have none: "TransactionService_getById exampleAB ''missing'' = None"
    by (simp add: TransactionService_getById_def exampleAB_def exampleDb_def)
  show ?thesis
    using none update_unknown_id [OF none, of 2 "noTransactionPatch\<lparr>u_amount := Some 5\<rparr>"]
    by simp
qed

section \<open>Properties of the lend/borrow service\<close>

lemma find_map_update:
  assumes "find (\<lambda>t. k t = i) xs = Some x" and "\<And>y. k (f y) = k y"
  shows "find (\<lambda>t. k t = i) (map (\<lambda>t. if k t = i then f t else t) xs) = Some (f x)"
  using assms(1)
proof (induction xs)
  case Nil
  then show ?case by simp
next
  case (Cons a xs)
  then show ?case by (cases "k a = i") (auto simp: assms(2))
qed

lemma applyLendBorrowPatch_id [simp]: "lb_id (applyLendBorrowPatch u now r) = lb_id r"
  by (simp add: applyLendBorrowPatch_def)




subsection \<open>Adding a payment\<close>




subsection \<open>The example loan, step by step\<close>










subsection \<open>Deleting a payment\<close>











subsection \<open>Creating a record\<close>

text \<open>
  Claim C9, as the code has it. A create request with a new id stores the row and returns
  it. When the request supplies \<open>remaining_amount = 0\<close>, the stored \<open>remaining_amount\<close> is
  the amount: the zero is falsy and gives way to the default. A record is therefore
  created with \<open>remaining_amount\<close> 0 exactly when its amount is 0 and the request supplies
  no \<open>remaining_amount\<close> or 0.
\<close>

theorem create_remaining_default:
  assumes "newId \<notin> set (map lb_id (lendBorrow d))"
  shows "LendBorrowService_create d now newId n
           = (d\<lparr>lendBorrow := lendBorrow d @ [lendBorrowRow newId now n]\<rparr>,
              Inr (lendBorrowRow newId now n))
    \<and> (nl_remainingAmount n = Some 0 \<longrightarrow>
          lb_remainingAmount (lendBorrowRow newId now n) = nl_amount n)
    \<and> (lb_remainingAmount (lendBorrowRow newId now n) = 0 \<longleftrightarrow>
          nl_amount n = 0 \<and> (nl_remainingAmount n = None \<or> nl_remainingAmount n = Some 0))"
proof -
  have "lb_remainingAmount (lendBorrowRow newId now n) = 0 \<longleftrightarrow>
          nl_amount n = 0 \<and> (nl_remainingAmount n = None \<or> nl_remainingAmount n = Some 0)"
    by (cases "nl_remainingAmount n") (auto simp: lendBorrowRow_def)
  moreover have "nl_remainingAmount n = Some 0 \<longrightarrow>
          lb_remainingAmount (lendBorrowRow newId now n) = nl_amount n"
    by (simp add: lendBorrowRow_def)
  ultimately show ?thesis
    using assms by (simp add: LendBorrowService_create_def Let_def)
qed

text \<open>The theorem at a loan of 5000 created with \<open>remaining_amount = 0\<close>: the stored
  \<open>remaining_amount\<close> is 5000.\<close>

theorem create_remaining_default_witness:
  "''L'' \<notin> set (map lb_id (lendBorrow (exampleDb [])))
   \<and> map lb_remainingAmount
       (lendBorrow (fst (LendBorrowService_create (exampleDb []) 0 ''L'' (exampleLoan 5000 (Some 0)))))
     = [5000]"
proof -
  have fresh: "''L'' \<notin> set (map lb_id (lendBorrow (exampleDb [])))"
    by (simp add: exampleDb_def)
  have "nl_remainingAmount (exampleLoan 5000 (Some 0)) = Some 0"
       "nl_amount (exampleLoan 5000 (Some 0)) = 5000"
    by (simp_all add: exampleLoan_def)
  then show ?thesis
    using fresh create_remaining_default [OF fresh, of 0 "exampleLoan 5000 (Some 0)"]
    by (simp add: exampleDb_def)
qed

text \<open>A loan of amount 0 created with \<open>remaining_amount = 0\<close> is stored with
  \<open>remaining_amount\<close> 0: a record can be created in that state.\<close>

theorem create_remaining_zero_counterexample:
  "map lb_remainingAmount
     (lendBorrow (fst (LendBorrowService_create (exampleDb []) 0 ''L'' (exampleLoan 0 (Some 0)))))
   = [0]"
  by (simp add: LendBorrowService_create_def exampleDb_def lendBorrowRow_def exampleLoan_def
        Let_def)

section \<open>Properties of the budget service\<close>

lemma filter_map_pres:
  "(\<And>x. P (g x) = P x) \<Longrightarrow> filter P (map g xs) = map g (filter P xs)"
  by (induction xs) auto

lemma find_Some_filter:
  "find P xs = Some e \<Longrightarrow> \<exists>rest. filter P xs = e # rest"
  by (induction xs) (auto split: if_splits)

lemma find_None_filter: "find P xs = None \<Longrightarrow> filter P xs = []"
  by (induction xs) (auto split: if_splits)

lemma find_Some_unique:
  assumes "find P xs = Some e" and "length (filter P xs) \<le> 1"
  shows "filter P xs = [e]"
  using find_Some_filter [OF assms(1)] assms(2) by auto

lemma find_Some_props: "find P xs = Some e \<Longrightarrow> e \<in> set xs \<and> P e"
  by (induction xs) (auto split: if_splits)

lemma find_map_exists:
  assumes "e \<in> set xs" and "k e = i" and "\<And>y. k (g y) = k y"
  shows "\<exists>b. find (\<lambda>t. k t = i) (map (\<lambda>t. if k t = i then g t else t) xs) = Some b"
  using assms(1,2)
proof (induction xs)
  case Nil
  then show ?case by simp
next
  case (Cons a xs)
  then show ?case by (cases "k a = i") (auto simp: assms(3))
qed

lemma applyBudgetPatch_amount:
  "applyBudgetPatch \<lparr>ub_categoryId = None, ub_amount = Some a, ub_period = None,
                     ub_month = None, ub_year = None\<rparr> now b
     = b\<lparr>b_amount := a, b_updatedAt := now\<rparr>"
  by (simp add: applyBudgetPatch_def)

lemma upsert_existing:
  assumes "getByCategoryAndPeriod d c m y = Some e"
    and "length (filter (inCategoryAndPeriod c m y) (budgets d)) \<le> 1"
  shows "filter (inCategoryAndPeriod c m y) (budgets (fst (upsertBudget d now newId c a m y)))
           = [e\<lparr>b_amount := a, b_updatedAt := now\<rparr>]
       \<and> (\<exists>b. snd (upsertBudget d now newId c a m y) = Inr (Some b))
       \<and> length (budgets (fst (upsertBudget d now newId c a m y))) = length (budgets d)"
proof -
  let ?P = "inCategoryAndPeriod c m y"
  let ?u = "\<lparr>ub_categoryId = None, ub_amount = Some a, ub_period = None,
             ub_month = None, ub_year = None\<rparr>"
  let ?g = "\<lambda>b. if b_id b = b_id e then applyBudgetPatch ?u now b else b"
  have one: "filter ?P (budgets d) = [e]"
    using find_Some_unique assms by (simp add: getByCategoryAndPeriod_def)
  have pres: "\<And>x. ?P (?g x) = ?P x"
    by (simp add: inCategoryAndPeriod_def applyBudgetPatch_def)
  have "filter ?P (map ?g (budgets d)) = map ?g (filter ?P (budgets d))"
    using pres by (rule filter_map_pres)
  then have flt: "filter ?P (map ?g (budgets d)) = [e\<lparr>b_amount := a, b_updatedAt := now\<rparr>]"
    by (simp add: one applyBudgetPatch_amount)
  have mem: "e \<in> set (budgets d)"
    using find_Some_props assms(1) by (fastforce simp: getByCategoryAndPeriod_def)
  have "\<exists>b. find (\<lambda>t. b_id t = b_id e)
          (map (\<lambda>t. if b_id t = b_id e then applyBudgetPatch ?u now t else t) (budgets d)) = Some b"
    using mem by (intro find_map_exists [where e = e]) (simp_all add: applyBudgetPatch_def)
  then show ?thesis
    using flt
    by (simp add: upsertBudget_def assms(1) BudgetService_update_def Let_def)
qed

lemma filter_single_find: "filter P xs = [x] \<Longrightarrow> find P xs \<noteq> None"
  using find_None_filter [of P xs] by auto

lemma upsert_new:
  assumes "getByCategoryAndPeriod d c m y = None"
    and "newId \<notin> set (map b_id (budgets d))"
  shows "filter (inCategoryAndPeriod c m y) (budgets (fst (upsertBudget d now newId c a m y)))
           = [\<lparr>b_id = newId, b_categoryId = c, b_amount = a, b_period = ''monthly'',
               b_month = Some m, b_year = Some y, b_createdAt = now, b_updatedAt = now\<rparr>]
       \<and> (\<exists>b. snd (upsertBudget d now newId c a m y) = Inr (Some b))
       \<and> length (budgets (fst (upsertBudget d now newId c a m y))) = length (budgets d) + 1"
proof -
  have "filter (inCategoryAndPeriod c m y) (budgets d) = []"
    using assms(1) by (simp add: getByCategoryAndPeriod_def find_None_filter)
  then show ?thesis
    using assms
    by (simp add: upsertBudget_def BudgetService_create_def Let_def inCategoryAndPeriod_def)
qed

lemma upsert_once:
  assumes "length (filter (inCategoryAndPeriod c m y) (budgets d)) \<le> 1"
    and "getByCategoryAndPeriod d c m y = None \<Longrightarrow> newId \<notin> set (map b_id (budgets d))"
  shows "map b_amount
           (filter (inCategoryAndPeriod c m y) (budgets (fst (upsertBudget d now newId c a m y))))
           = [a]
       \<and> (\<exists>b. snd (upsertBudget d now newId c a m y) = Inr (Some b))
       \<and> getByCategoryAndPeriod (fst (upsertBudget d now newId c a m y)) c m y \<noteq> None"
proof (cases "getByCategoryAndPeriod d c m y")
  case None
  show ?thesis
    using upsert_new [OF None assms(2) [OF None], of now a]
      filter_single_find [of "inCategoryAndPeriod c m y"
        "budgets (fst (upsertBudget d now newId c a m y))"]
    by (simp add: getByCategoryAndPeriod_def)
next
  case (Some e)
  show ?thesis
    using upsert_existing [OF Some assms(1), of now newId a]
      filter_single_find [of "inCategoryAndPeriod c m y"
        "budgets (fst (upsertBudget d now newId c a m y))"]
    by (simp add: getByCategoryAndPeriod_def)
qed

text \<open>
  Claim C8. Let the budget table hold at most one row for the category and period (the
  data model's invariant, which \<open>upsertBudget\<close> keeps), and let the id drawn by the first
  call be new. Then two calls of \<open>upsertBudget\<close> with that category, month and year both
  return a row, and they leave exactly one budget row for that category and period,
  whose amount is the amount of the second call.
\<close>

theorem upsertBudget_twice:
  assumes "length (filter (inCategoryAndPeriod c m y) (budgets d)) \<le> 1"
    and "id1 \<notin> set (map b_id (budgets d))"
  shows "map b_amount
           (filter (inCategoryAndPeriod c m y)
              (budgets (fst (upsertBudget (fst (upsertBudget d now1 id1 c a1 m y)) now2 id2 c a2 m y))))
           = [a2]
    \<and> (\<exists>b. snd (upsertBudget d now1 id1 c a1 m y) = Inr (Some b))
    \<and> (\<exists>b. snd (upsertBudget (fst (upsertBudget d now1 id1 c a1 m y)) now2 id2 c a2 m y)
              = Inr (Some b))"
proof -
  let ?d1 = "fst (upsertBudget d now1 id1 c a1 m y)"
  have first: "map b_amount (filter (inCategoryAndPeriod c m y) (budgets ?d1)) = [a1]
       \<and> (\<exists>b. snd (upsertBudget d now1 id1 c a1 m y) = Inr (Some b))
       \<and> getByCategoryAndPeriod ?d1 c m y \<noteq> None"
    using assms by (intro upsert_once) simp_all
  then have "length (map b_amount (filter (inCategoryAndPeriod c m y) (budgets ?d1))) = 1"
    by simp
  then have len: "length (filter (inCategoryAndPeriod c m y) (budgets ?d1)) \<le> 1"
    by simp
  have "map b_amount
           (filter (inCategoryAndPeriod c m y) (budgets (fst (upsertBudget ?d1 now2 id2 c a2 m y))))
           = [a2]
       \<and> (\<exists>b. snd (upsertBudget ?d1 now2 id2 c a2 m y) = Inr (Some b))
       \<and> getByCategoryAndPeriod (fst (upsertBudget ?d1 now2 id2 c a2 m y)) c m y \<noteq> None"
    using len first by (intro upsert_once) simp_all
  with first show ?thesis by simp
qed

text \<open>The theorem at an empty budget table: a budget of 100 and then of 250 for the food
  category in March 2024 leaves one row, of amount 250.\<close>

theorem upsertBudget_twice_witness:
  "length (filter (inCategoryAndPeriod ''food'' 3 2024) (budgets (exampleDb []))) \<le> 1
   \<and> ''b1'' \<notin> set (map b_id (budgets (exampleDb [])))
   \<and> map b_amount
       (filter (inCategoryAndPeriod ''food'' 3 2024)
          (budgets (fst (upsertBudget (fst (upsertBudget (exampleDb []) 1 ''b1'' ''food'' 100 3 2024))
                           2 ''b2'' ''food'' 250 3 2024))))
     = [250]
   \<and> length (budgets (fst (upsertBudget (fst (upsertBudget (exampleDb []) 1 ''b1'' ''food'' 100 3 2024))
                           2 ''b2'' ''food'' 250 3 2024))) = 1"
proof -
  have one: "length (filter (inCategoryAndPeriod ''food'' 3 2024) (budgets (exampleDb []))) \<le> 1"
    by (simp add: exampleDb_def)
  have fresh: "''b1'' \<notin> set (map b_id (budgets (exampleDb [])))"
    by (simp add: exampleDb_def)
  have "length (budgets (fst (upsertBudget (fst (upsertBudget (exampleDb []) 1 ''b1'' ''food'' 100 3 2024))
                           2 ''b2'' ''food'' 250 3 2024))) = 1"
    by (simp add: upsertBudget_def getByCategoryAndPeriod_def inCategoryAndPeriod_def
          BudgetService_create_def BudgetService_update_def exampleDb_def Let_def)
  then show ?thesis
    using one fresh upsertBudget_twice [OF one fresh, of 1 100 2 "''b2''" 250]
    by simp
qed

section \<open>Properties of the Date methods\<close>

subsection \<open>Years\<close>

lemma int_div_succ:
  fixes a k :: int
  assumes "0 < k"
  shows "(a + 1) div k = (if (a + 1) mod k = 0 then a div k + 1 else a div k)"
proof -
  define q where "q = a div k"
  define r where "r = a mod k"
  have a: "a = k * q + r" and r: "0 \<le> r" "r < k"
    using assms by (simp_all add: q_def r_def)
  show ?thesis
  proof (cases "r + 1 = k")
    case True
    then have eq: "a + 1 = k * (q + 1) + 0"
      using a by (simp add: algebra_simps)
    have "(a + 1) div k = q + 1"
      using eq assms by (intro int_div_pos_eq [where r = 0]) simp_all
    moreover have "(a + 1) mod k = 0"
      using eq assms by (intro int_mod_pos_eq [where q = "q + 1"]) simp_all
    ultimately show ?thesis by (simp add: q_def)
  next
    case False
    then have lt: "r + 1 < k" using r by simp
    have eq: "a + 1 = k * q + (r + 1)"
      using a by simp
    have "(a + 1) div k = q"
      using eq lt r by (intro int_div_pos_eq [where r = "r + 1"]) simp_all
    moreover have "(a + 1) mod k = r + 1"
      using eq lt r by (intro int_mod_pos_eq [where q = q]) simp_all
    ultimately show ?thesis using r by (simp add: q_def)
  qed
qed

lemma mod_of_multiple:
  fixes y j k :: int
  assumes "y mod (j * k) = 0"
  shows "y mod k = 0"
proof -
  have "j * k dvd y" using assms by (simp add: mod_eq_0_iff_dvd)
  then have "k dvd y" by (rule dvd_mult_right)
  then show ?thesis by simp
qed

lemma DayFromYear_Suc: "DayFromYear (y + 1) = DayFromYear y + DaysInYear y"
proof -
  have m4: "(y - 1968) mod 4 = y mod 4"
    using mod_mult_self1 [of y "- 492" 4] by simp
  have m100: "(y - 1900) mod 100 = y mod 100"
    using mod_mult_self1 [of y "- 19" 100] by simp
  have m400: "(y - 1600) mod 400 = y mod 400"
    using mod_mult_self1 [of y "- 4" 400] by simp
  have d4: "(y + 1 - 1969) div 4 = (y - 1969) div 4 + (if y mod 4 = 0 then 1 else 0)"
    using int_div_succ [of 4 "y - 1969"] m4 by (simp add: algebra_simps)
  have d100: "(y + 1 - 1901) div 100 = (y - 1901) div 100 + (if y mod 100 = 0 then 1 else 0)"
    using int_div_succ [of 100 "y - 1901"] m100 by (simp add: algebra_simps)
  have d400: "(y + 1 - 1601) div 400 = (y - 1601) div 400 + (if y mod 400 = 0 then 1 else 0)"
    using int_div_succ [of 400 "y - 1601"] m400 by (simp add: algebra_simps)
  have c1: "y mod 100 = 0 \<Longrightarrow> y mod 4 = 0"
    using mod_of_multiple [of y 25 4] by simp
  have c2: "y mod 400 = 0 \<Longrightarrow> y mod 100 = 0"
    using mod_of_multiple [of y 4 100] by simp
  show ?thesis
    unfolding DayFromYear_def DaysInYear_def d4 d100 d400
    using c1 c2 by auto
qed

lemma div_bounds:
  fixes a k :: int
  assumes "0 < k"
  shows "k * (a div k) \<le> a" and "a < k * (a div k) + k"
proof -
  have "a = k * (a div k) + a mod k" by simp
  moreover have "0 \<le> a mod k" "a mod k < k" using assms by simp_all
  ultimately show "k * (a div k) \<le> a" and "a < k * (a div k) + k" by linarith+
qed

lemma DayFromYear_parts:
  fixes y :: int
  defines "a \<equiv> (y - 1969) div 4" and "b \<equiv> (y - 1901) div 100" and "c \<equiv> (y - 1601) div 400"
  shows "DayFromYear y = 365 * y - 719050 + a - b + c"
    and "4 * a \<le> y - 1969" and "y - 1969 < 4 * a + 4"
    and "100 * b \<le> y - 1901" and "y - 1901 < 100 * b + 100"
    and "400 * c \<le> y - 1601" and "y - 1601 < 400 * c + 400"
  using div_bounds [of 4 "y - 1969"] div_bounds [of 100 "y - 1901"] div_bounds [of 400 "y - 1601"]
  by (simp_all add: DayFromYear_def a_def b_def c_def)

lemma estimate_low:
  fixes dn x y :: int
  assumes "146097 * x \<le> dn * 400" and "y = 1969 + x"
  shows "DayFromYear y \<le> dn"
  using DayFromYear_parts [of y] assms by linarith

lemma estimate_high:
  fixes dn x y :: int
  assumes "dn * 400 < 146097 * x + 146097" and "y = 1972 + x"
  shows "dn < DayFromYear y"
  using DayFromYear_parts [of y] assms by linarith

lemma yearFromDay_bounds:
  "DayFromYear (yearFromDay dn) \<le> dn \<and> dn < DayFromYear (yearFromDay dn + 1)"
proof -
  define x where "x = (dn * 400) div 146097"
  have lo: "146097 * x \<le> dn * 400" and hi: "dn * 400 < 146097 * x + 146097"
    using div_bounds [of 146097 "dn * 400"] by (simp_all add: x_def)
  have B1: "DayFromYear (1970 + x - 1) \<le> dn"
    using lo by (rule estimate_low) simp
  have B2: "dn < DayFromYear (1970 + x + 1 + 1)"
    using hi by (rule estimate_high) simp
  show ?thesis
    unfolding yearFromDay_def x_def [symmetric] Let_def
    using B1 B2 by auto
qed

lemma DayFromYear_mono: "y \<le> y' \<Longrightarrow> DayFromYear y \<le> DayFromYear y'"
proof (induction y' rule: int_ge_induct)
  case base
  then show ?case by simp
next
  case (step i)
  have "0 < DaysInYear i" by (simp add: DaysInYear_def)
  then show ?case using step DayFromYear_Suc [of i] by simp
qed

lemma yearFromDay_unique:
  assumes "DayFromYear Y \<le> dn" and "dn < DayFromYear (Y + 1)"
  shows "yearFromDay dn = Y"
proof (rule ccontr)
  assume ne: "yearFromDay dn \<noteq> Y"
  show False
  proof (cases "yearFromDay dn < Y")
    case True
    then have "DayFromYear (yearFromDay dn + 1) \<le> DayFromYear Y"
      by (intro DayFromYear_mono) simp
    then show False using yearFromDay_bounds [of dn] assms(1) by linarith
  next
    case False
    then have "DayFromYear (Y + 1) \<le> DayFromYear (yearFromDay dn)"
      using ne by (intro DayFromYear_mono) simp
    then show False using yearFromDay_bounds [of dn] assms(2) by linarith
  qed
qed

lemma DaysInYear_cases: "DaysInYear y = 365 \<or> DaysInYear y = 366"
  by (simp add: DaysInYear_def)

lemma month_cases:
  fixes mn :: int
  assumes "0 \<le> mn" and "mn \<le> 11"
  obtains "mn = 0" | "mn = 1" | "mn = 2" | "mn = 3" | "mn = 4" | "mn = 5"
    | "mn = 6" | "mn = 7" | "mn = 8" | "mn = 9" | "mn = 10" | "mn = 11"
proof -
  have "mn = 0 \<or> mn = 1 \<or> mn = 2 \<or> mn = 3 \<or> mn = 4 \<or> mn = 5
      \<or> mn = 6 \<or> mn = 7 \<or> mn = 8 \<or> mn = 9 \<or> mn = 10 \<or> mn = 11"
    using assms by presburger
  then show ?thesis
    using that by blast
qed

lemma Day_MakeDate:
  assumes "0 \<le> tm" and "tm < msPerDay"
  shows "Day (MakeDate dn tm) = dn" and "TimeWithinDay (MakeDate dn tm) = tm"
  using assms by (simp_all add: Day_def TimeWithinDay_def MakeDate_def msPerDay_def)

lemma TimeWithinDay_bounds: "0 \<le> TimeWithinDay t" "TimeWithinDay t < msPerDay"
  by (simp_all add: TimeWithinDay_def msPerDay_def)

lemma civil_of_day:
  assumes mn: "0 \<le> mn" "mn \<le> 11" and dt: "1 \<le> dt" "dt \<le> daysInMonth Y mn"
    and day: "Day t = DayFromYear Y + daysBeforeMonth Y mn + dt - 1"
  shows "YearFromTime t = Y" and "MonthFromTime t = mn" and "DateFromTime t = dt"
proof -
  have range: "0 \<le> daysBeforeMonth Y mn + dt - 1 \<and> daysBeforeMonth Y mn + dt - 1 < DaysInYear Y"
    using mn(1) mn(2)
  proof (cases mn rule: month_cases)
  qed (use dt DaysInYear_cases [of Y] in \<open>auto simp: daysInMonth_def daysBeforeMonth_def\<close>)
  show year: "YearFromTime t = Y"
    unfolding YearFromTime_def
    using range day by (intro yearFromDay_unique) (simp_all add: DayFromYear_Suc)
  have dy: "DayWithinYear t = daysBeforeMonth Y mn + dt - 1"
    by (simp add: DayWithinYear_def year day)
  have leap: "InLeapYear t = (if DaysInYear Y = 366 then 1 else 0)"
    by (simp add: InLeapYear_def year)
  show month: "MonthFromTime t = mn"
    using mn(1) mn(2)
  proof (cases mn rule: month_cases)
  qed (use dt DaysInYear_cases [of Y] in
       \<open>auto simp: MonthFromTime_def dy leap daysInMonth_def daysBeforeMonth_def\<close>)
  show "DateFromTime t = dt"
    using mn(1) mn(2)
  proof (cases mn rule: month_cases)
  qed (use dt DaysInYear_cases [of Y] in
       \<open>auto simp: DateFromTime_def month dy leap daysInMonth_def daysBeforeMonth_def\<close>)
qed

lemma DayWithinYear_bounds:
  "0 \<le> DayWithinYear t" "DayWithinYear t < DaysInYear (YearFromTime t)"
  using yearFromDay_bounds [of "Day t"] DayFromYear_Suc [of "YearFromTime t"]
  by (simp_all add: DayWithinYear_def YearFromTime_def)

lemma MonthFromTime_bounds: "0 \<le> MonthFromTime t" "MonthFromTime t \<le> 11"
  by (simp_all add: MonthFromTime_def Let_def)

lemma day_of_civil:
  "Day t = DayFromYear (YearFromTime t)
             + daysBeforeMonth (YearFromTime t) (MonthFromTime t) + DateFromTime t - 1"
  using DaysInYear_cases [of "YearFromTime t"]
  by (auto simp: DateFromTime_def MonthFromTime_def daysBeforeMonth_def InLeapYear_def
        DayWithinYear_def Let_def)

lemma DateFromTime_bounds:
  "1 \<le> DateFromTime t" "DateFromTime t \<le> daysInMonth (YearFromTime t) (MonthFromTime t)"
  using DayWithinYear_bounds [of t] DaysInYear_cases [of "YearFromTime t"]
  by (auto simp: DateFromTime_def MonthFromTime_def daysBeforeMonth_def daysInMonth_def
        InLeapYear_def Let_def)

lemma daysInMonth_ge_28:
  assumes "0 \<le> mn" and "mn \<le> 11"
  shows "28 \<le> daysInMonth y mn"
  using assms
proof (cases mn rule: month_cases)
qed (use DaysInYear_cases [of y] in \<open>auto simp: daysInMonth_def daysBeforeMonth_def\<close>)

lemma daysInMonth_other_year:
  assumes "0 \<le> mn" and "mn \<le> 11" and "mn \<noteq> 1"
  shows "daysInMonth y' mn = daysInMonth y mn"
  using assms(1,2)
proof (cases mn rule: month_cases)
qed (use assms(3) DaysInYear_cases [of y] DaysInYear_cases [of y'] in
     \<open>auto simp: daysInMonth_def daysBeforeMonth_def\<close>)

lemma daysInMonth_february: "daysInMonth y 1 \<le> 29"
  using DaysInYear_cases [of y] by (auto simp: daysInMonth_def daysBeforeMonth_def)

lemma daysInMonth_le_31:
  assumes "0 \<le> mn" and "mn \<le> 11"
  shows "daysInMonth y mn \<le> 31"
  using assms
proof (cases mn rule: month_cases)
qed (use DaysInYear_cases [of y] in \<open>auto simp: daysInMonth_def daysBeforeMonth_def\<close>)

lemma daysInMonth_december: "daysInMonth y 11 = 31"
  using DaysInYear_cases [of y] by (auto simp: daysInMonth_def daysBeforeMonth_def)

lemma daysBeforeMonth_next:
  assumes "0 \<le> mn" and "mn \<le> 10"
  shows "daysBeforeMonth y (mn + 1) = daysBeforeMonth y mn + daysInMonth y mn"
  using assms by (simp add: daysInMonth_def)

subsection \<open>Civil dates\<close>

lemma MakeDay_month:
  assumes "0 \<le> mn" and "mn \<le> 11"
  shows "MakeDay y mn dt = DayFromYear y + daysBeforeMonth y mn + dt - 1"
proof -
  have "mn div 12 = 0" and "mn mod 12 = mn"
    using assms by auto
  then show ?thesis
    by (simp add: MakeDay_def)
qed

lemma civilTime_fields:
  assumes "0 \<le> mn" "mn \<le> 11" "1 \<le> dt" "dt \<le> daysInMonth y mn" "0 \<le> tm" "tm < msPerDay"
  shows "YearFromTime (civilTime y mn dt tm) = y"
    and "MonthFromTime (civilTime y mn dt tm) = mn"
    and "DateFromTime (civilTime y mn dt tm) = dt"
    and "TimeWithinDay (civilTime y mn dt tm) = tm"
proof -
  have day: "Day (civilTime y mn dt tm) = DayFromYear y + daysBeforeMonth y mn + dt - 1"
    using assms by (simp add: civilTime_def Day_MakeDate MakeDay_month)
  note civil = civil_of_day [OF assms(1-4) day]
  show "YearFromTime (civilTime y mn dt tm) = y"
    and "MonthFromTime (civilTime y mn dt tm) = mn"
    and "DateFromTime (civilTime y mn dt tm) = dt"
    by (rule civil)+
  show "TimeWithinDay (civilTime y mn dt tm) = tm"
    using assms by (simp add: civilTime_def Day_MakeDate)
qed

text \<open>A day number past the end of its month is a day of the month after.\<close>

lemma civilTime_rollover:
  assumes "0 \<le> mn" and "mn \<le> 10"
  shows "civilTime y mn dt tm = civilTime y (mn + 1) (dt - daysInMonth y mn) tm"
proof -
  have "MakeDay y mn dt = MakeDay y (mn + 1) (dt - daysInMonth y mn)"
    using assms by (simp add: MakeDay_month daysBeforeMonth_next)
  then show ?thesis
    by (simp add: civilTime_def)
qed

subsection \<open>\<open>setMonth\<close> and \<open>setFullYear\<close>, one period on\<close>

lemma LocalTime_UTC_fixed [simp]: "LocalTime (fixedZone off) (UTC (fixedZone off) x) = x"
  by (simp add: LocalTime_def UTC_def fixedZone_def)

lemma setMonth_next_eq:
  "setMonth tz d (getMonth tz d + 1)
     = UTC tz (civilTime (if getMonth tz d = 11 then getFullYear tz d + 1 else getFullYear tz d)
                 (if getMonth tz d = 11 then 0 else getMonth tz d + 1)
                 (getDate tz d) (TimeWithinDay (LocalTime tz d)))"
proof (cases "MonthFromTime (LocalTime tz d) = 11")
  case True
  then show ?thesis
    by (simp add: setMonth_def Let_def getMonth_def getFullYear_def getDate_def civilTime_def
          MakeDay_def)
next
  case False
  then show ?thesis
    by (simp add: setMonth_def Let_def getMonth_def getFullYear_def getDate_def civilTime_def)
qed

lemma setFullYear_next_eq:
  "setFullYear tz d (getFullYear tz d + 1)
     = UTC tz (civilTime (getFullYear tz d + 1) (getMonth tz d) (getDate tz d)
                 (TimeWithinDay (LocalTime tz d)))"
  by (simp add: setFullYear_def Let_def getMonth_def getFullYear_def getDate_def civilTime_def)

lemma nextMonth_fields:
  fixes tz :: zone and d :: date
  defines "Y1 \<equiv> (if getMonth tz d = 11 then getFullYear tz d + 1 else getFullYear tz d)"
    and "M1 \<equiv> (if getMonth tz d = 11 then 0 else getMonth tz d + 1)"
    and "T \<equiv> TimeWithinDay (LocalTime tz d)"
  assumes "getDate tz d \<le> daysInMonth Y1 M1"
  shows "YearFromTime (civilTime Y1 M1 (getDate tz d) T) = Y1"
    and "MonthFromTime (civilTime Y1 M1 (getDate tz d) T) = M1"
    and "DateFromTime (civilTime Y1 M1 (getDate tz d) T) = getDate tz d"
    and "TimeWithinDay (civilTime Y1 M1 (getDate tz d) T) = T"
proof -
  have m: "0 \<le> M1" "M1 \<le> 11"
    using MonthFromTime_bounds [of "LocalTime tz d"] by (simp_all add: M1_def getMonth_def)
  have dt: "1 \<le> getDate tz d"
    using DateFromTime_bounds(1) [of "LocalTime tz d"] by (simp add: getDate_def)
  have tm: "0 \<le> T" "T < msPerDay"
    unfolding T_def by (rule TimeWithinDay_bounds)+
  show "YearFromTime (civilTime Y1 M1 (getDate tz d) T) = Y1"
    and "MonthFromTime (civilTime Y1 M1 (getDate tz d) T) = M1"
    and "DateFromTime (civilTime Y1 M1 (getDate tz d) T) = getDate tz d"
    and "TimeWithinDay (civilTime Y1 M1 (getDate tz d) T) = T"
    by (rule civilTime_fields [OF m dt assms(4) tm])+
qed

lemma nextMonth_rollover:
  fixes tz :: zone and d :: date
  defines "Y1 \<equiv> (if getMonth tz d = 11 then getFullYear tz d + 1 else getFullYear tz d)"
    and "M1 \<equiv> (if getMonth tz d = 11 then 0 else getMonth tz d + 1)"
    and "T \<equiv> TimeWithinDay (LocalTime tz d)"
  assumes "daysInMonth Y1 M1 < getDate tz d"
  shows "YearFromTime (civilTime Y1 M1 (getDate tz d) T) = Y1"
    and "MonthFromTime (civilTime Y1 M1 (getDate tz d) T) = M1 + 1"
    and "DateFromTime (civilTime Y1 M1 (getDate tz d) T) = getDate tz d - daysInMonth Y1 M1"
    and "TimeWithinDay (civilTime Y1 M1 (getDate tz d) T) = T"
proof -
  define t where "t = LocalTime tz d"
  have m0: "0 \<le> MonthFromTime t" "MonthFromTime t \<le> 11"
    by (rule MonthFromTime_bounds)+
  have m: "0 \<le> M1" "M1 \<le> 11"
    using m0 by (simp_all add: M1_def getMonth_def t_def)
  have "DateFromTime t \<le> daysInMonth (YearFromTime t) (MonthFromTime t)"
    by (rule DateFromTime_bounds)
  then have le31: "getDate tz d \<le> 31"
    using daysInMonth_le_31 [OF m0, of "YearFromTime t"] by (simp add: getDate_def t_def)
  have "M1 \<noteq> 11"
    using assms(4) le31 daysInMonth_december [of Y1] by auto
  then have m10: "M1 \<le> 10" and m': "0 \<le> M1 + 1" "M1 + 1 \<le> 11"
    using m by simp_all
  have dt: "1 \<le> getDate tz d - daysInMonth Y1 M1"
    using assms(4) by simp
  have "getDate tz d - daysInMonth Y1 M1 \<le> 3"
    using le31 daysInMonth_ge_28 [OF m, of Y1] by simp
  then have dt': "getDate tz d - daysInMonth Y1 M1 \<le> daysInMonth Y1 (M1 + 1)"
    using daysInMonth_ge_28 [OF m', of Y1] by simp
  have tm: "0 \<le> T" "T < msPerDay"
    unfolding T_def by (rule TimeWithinDay_bounds)+
  have eq: "civilTime Y1 M1 (getDate tz d) T
              = civilTime Y1 (M1 + 1) (getDate tz d - daysInMonth Y1 M1) T"
    by (rule civilTime_rollover [OF m(1) m10])
  show "YearFromTime (civilTime Y1 M1 (getDate tz d) T) = Y1"
    and "MonthFromTime (civilTime Y1 M1 (getDate tz d) T) = M1 + 1"
    and "DateFromTime (civilTime Y1 M1 (getDate tz d) T) = getDate tz d - daysInMonth Y1 M1"
    and "TimeWithinDay (civilTime Y1 M1 (getDate tz d) T) = T"
    unfolding eq by (rule civilTime_fields [OF m' dt dt' tm])+
qed

lemma nextYear_fields:
  fixes tz :: zone and d :: date
  defines "T \<equiv> TimeWithinDay (LocalTime tz d)"
  assumes "\<not> (getMonth tz d = 1 \<and> getDate tz d = 29)"
  shows "YearFromTime (civilTime (getFullYear tz d + 1) (getMonth tz d) (getDate tz d) T)
           = getFullYear tz d + 1"
    and "MonthFromTime (civilTime (getFullYear tz d + 1) (getMonth tz d) (getDate tz d) T)
           = getMonth tz d"
    and "DateFromTime (civilTime (getFullYear tz d + 1) (getMonth tz d) (getDate tz d) T)
           = getDate tz d"
    and "TimeWithinDay (civilTime (getFullYear tz d + 1) (getMonth tz d) (getDate tz d) T) = T"
proof -
  define t where "t = LocalTime tz d"
  define Y where "Y = YearFromTime t + 1"
  define mn where "mn = MonthFromTime t"
  have mn: "0 \<le> mn" "mn \<le> 11"
    unfolding mn_def by (rule MonthFromTime_bounds)+
  have old: "1 \<le> DateFromTime t" "DateFromTime t \<le> daysInMonth (YearFromTime t) mn"
    unfolding mn_def by (rule DateFromTime_bounds)+
  have new: "DateFromTime t \<le> daysInMonth Y mn"
  proof (cases "mn = 1")
    case True
    then have "DateFromTime t \<noteq> 29"
      using assms(2) by (simp add: getMonth_def getDate_def t_def mn_def)
    moreover have "DateFromTime t \<le> 29"
      using old(2) daysInMonth_february [of "YearFromTime t"] True by simp
    ultimately show ?thesis
      using daysInMonth_ge_28 [OF mn, of Y] by linarith
  next
    case False
    then show ?thesis
      using old(2) daysInMonth_other_year [OF mn False, of Y "YearFromTime t"] by simp
  qed
  have tm: "0 \<le> T" "T < msPerDay"
    unfolding T_def by (rule TimeWithinDay_bounds)+
  note fields = civilTime_fields [OF mn old(1) new tm]
  show "YearFromTime (civilTime (getFullYear tz d + 1) (getMonth tz d) (getDate tz d) T)
           = getFullYear tz d + 1"
    and "MonthFromTime (civilTime (getFullYear tz d + 1) (getMonth tz d) (getDate tz d) T)
           = getMonth tz d"
    and "DateFromTime (civilTime (getFullYear tz d + 1) (getMonth tz d) (getDate tz d) T)
           = getDate tz d"
    and "TimeWithinDay (civilTime (getFullYear tz d + 1) (getMonth tz d) (getDate tz d) T) = T"
    using fields by (simp_all add: getFullYear_def getMonth_def getDate_def Y_def mn_def t_def)
qed

lemma leap_year_next:
  assumes "DaysInYear y = 366"
  shows "DaysInYear (y + 1) = 365"
proof -
  have "y mod 4 = 0"
    using assms by (auto simp: DaysInYear_def split: if_splits)
  then have "(y + 1) mod 4 \<noteq> 0"
    by presburger
  then show ?thesis
    by (simp add: DaysInYear_def)
qed

lemma nextYear_rollover:
  fixes tz :: zone and d :: date
  defines "T \<equiv> TimeWithinDay (LocalTime tz d)"
  assumes "getMonth tz d = 1" and "getDate tz d = 29"
  shows "YearFromTime (civilTime (getFullYear tz d + 1) (getMonth tz d) (getDate tz d) T)
           = getFullYear tz d + 1"
    and "MonthFromTime (civilTime (getFullYear tz d + 1) (getMonth tz d) (getDate tz d) T) = 2"
    and "DateFromTime (civilTime (getFullYear tz d + 1) (getMonth tz d) (getDate tz d) T) = 1"
    and "TimeWithinDay (civilTime (getFullYear tz d + 1) (getMonth tz d) (getDate tz d) T) = T"
proof -
  define t where "t = LocalTime tz d"
  define Y where "Y = YearFromTime t"
  have feb: "MonthFromTime t = 1" and d29: "DateFromTime t = 29"
    using assms(2,3) by (simp_all add: getMonth_def getDate_def t_def)
  have "29 \<le> daysInMonth Y 1"
    using DateFromTime_bounds(2) [of t] by (simp add: feb d29 Y_def)
  then have "DaysInYear Y = 366"
    using DaysInYear_cases [of Y] by (auto simp: daysInMonth_def daysBeforeMonth_def)
  then have "DaysInYear (Y + 1) = 365"
    by (rule leap_year_next)
  then have feb28: "daysInMonth (Y + 1) 1 = 28" and mar: "daysInMonth (Y + 1) 2 = 31"
    by (simp_all add: daysInMonth_def daysBeforeMonth_def)
  have tm: "0 \<le> T" "T < msPerDay"
    unfolding T_def by (rule TimeWithinDay_bounds)+
  have "civilTime (Y + 1) 1 29 T = civilTime (Y + 1) (1 + 1) (29 - daysInMonth (Y + 1) 1) T"
    by (rule civilTime_rollover) simp_all
  then have eq: "civilTime (Y + 1) 1 29 T = civilTime (Y + 1) 2 1 T"
    by (simp add: feb28)
  have fields: "YearFromTime (civilTime (Y + 1) 2 1 T) = Y + 1"
    "MonthFromTime (civilTime (Y + 1) 2 1 T) = 2"
    "DateFromTime (civilTime (Y + 1) 2 1 T) = 1"
    "TimeWithinDay (civilTime (Y + 1) 2 1 T) = T"
    using tm by (simp_all add: civilTime_fields mar)
  show "YearFromTime (civilTime (getFullYear tz d + 1) (getMonth tz d) (getDate tz d) T)
           = getFullYear tz d + 1"
    and "MonthFromTime (civilTime (getFullYear tz d + 1) (getMonth tz d) (getDate tz d) T) = 2"
    and "DateFromTime (civilTime (getFullYear tz d + 1) (getMonth tz d) (getDate tz d) T) = 1"
    and "TimeWithinDay (civilTime (getFullYear tz d + 1) (getMonth tz d) (getDate tz d) T) = T"
    using fields unfolding assms(2,3) getFullYear_def t_def [symmetric] Y_def [symmetric] eq
    by simp_all
qed

section \<open>Properties of the bill reminder service\<close>

subsection \<open>Dates of the examples\<close>

lemma localDate_civil:
  assumes "0 \<le> mn" "mn \<le> 11" "1 \<le> dt" "dt \<le> daysInMonth y mn"
  shows "getFullYear (fixedZone off) (localDate (fixedZone off) y mn dt) = y"
    and "getMonth (fixedZone off) (localDate (fixedZone off) y mn dt) = mn"
    and "getDate (fixedZone off) (localDate (fixedZone off) y mn dt) = dt"
    and "TimeWithinDay (LocalTime (fixedZone off) (localDate (fixedZone off) y mn dt)) = 0"
proof -
  have local: "LocalTime (fixedZone off) (localDate (fixedZone off) y mn dt) = civilTime y mn dt 0"
    by (simp add: localDate_def civilTime_def)
  have tm: "(0::int) \<le> 0" "0 < msPerDay"
    by (simp_all add: msPerDay_def)
  note fields = civilTime_fields [OF assms tm]
  show "getFullYear (fixedZone off) (localDate (fixedZone off) y mn dt) = y"
    and "getMonth (fixedZone off) (localDate (fixedZone off) y mn dt) = mn"
    and "getDate (fixedZone off) (localDate (fixedZone off) y mn dt) = dt"
    and "TimeWithinDay (LocalTime (fixedZone off) (localDate (fixedZone off) y mn dt)) = 0"
    unfolding getFullYear_def getMonth_def getDate_def local by (rule fields)+
qed

lemma localDate_civilTime: "UTC tz (civilTime y mn dt 0) = localDate tz y mn dt"
  by (simp add: localDate_def civilTime_def)

lemma setMonth_localDate:
  assumes "0 \<le> mn" "mn \<le> 11" "1 \<le> dt" "dt \<le> daysInMonth y mn"
  shows "setMonth (fixedZone off) (localDate (fixedZone off) y mn dt) k
           = localDate (fixedZone off) y k dt"
  using localDate_civil [OF assms, of off]
  by (simp add: setMonth_def Let_def localDate_def getFullYear_def getDate_def)

lemma daysInMonth_2024:
  "daysInMonth 2024 0 = 31" "daysInMonth 2024 1 = 29" "daysInMonth 2024 2 = 31"
  "daysInMonth 2024 3 = 30"
  by (simp_all add: daysInMonth_def daysBeforeMonth_def DaysInYear_def)

lemma example_due:
  "nextDueDate (fixedZone off)
     (exampleBill (localDate (fixedZone off) 2024 2 15) (Some (localDate (fixedZone off) 2024 2 12)))
     = localDate (fixedZone off) 2024 3 15"
proof -
  have "getMonth (fixedZone off) (localDate (fixedZone off) 2024 2 15) = 2"
    by (rule localDate_civil) (simp_all add: daysInMonth_2024)
  moreover have "setMonth (fixedZone off) (localDate (fixedZone off) 2024 2 15) 3
                   = localDate (fixedZone off) 2024 3 15"
    by (rule setMonth_localDate) (simp_all add: daysInMonth_2024)
  ultimately show ?thesis
    by (simp add: nextDueDate_def exampleBill_def)
qed

lemma example_lead:
  "localDate (fixedZone off) 2024 3 15
     - (localDate (fixedZone off) 2024 2 15 - localDate (fixedZone off) 2024 2 12)
     = localDate (fixedZone off) 2024 3 12"
  by (simp add: localDate_def UTC_def fixedZone_def MakeDate_def MakeDay_def msPerDay_def
        daysBeforeMonth_def DaysInYear_def)

subsection \<open>Marking as paid\<close>

lemma applyBillReminderPatch_id [simp]: "r_id (applyBillReminderPatch u now r) = r_id r"
  by (simp add: applyBillReminderPatch_def)

lemma paid_patch:
  "applyBillReminderPatch
     (noBillReminderPatch\<lparr>ur_isPaid := Some True,
        ur_transactionId := Some (if truthyString tid then tid else None)\<rparr>) now r
   = paidRow now tid r"
  by (simp add: applyBillReminderPatch_def noBillReminderPatch_def paidRow_def)

lemma unpaid_patch:
  "applyBillReminderPatch
     (noBillReminderPatch\<lparr>ur_isPaid := Some False, ur_transactionId := Some None\<rparr>) now r
   = unpaidRow now r"
  by (simp add: applyBillReminderPatch_def noBillReminderPatch_def unpaidRow_def)

lemma paidRow_id [simp]: "r_id (paidRow now tid r) = r_id r"
  by (simp add: paidRow_def)

lemma unpaidRow_id [simp]: "r_id (unpaidRow now r) = r_id r"
  by (simp add: unpaidRow_def)

lemma markPaid_update:
  "BillReminderService_update d now i
     (noBillReminderPatch\<lparr>ur_isPaid := Some True,
        ur_transactionId := Some (if truthyString tid then tid else None)\<rparr>)
   = (d\<lparr>billReminders := map (\<lambda>x. if r_id x = i then paidRow now tid x else x) (billReminders d)\<rparr>,
      find (\<lambda>r. r_id r = i)
        (map (\<lambda>x. if r_id x = i then paidRow now tid x else x) (billReminders d)))"
proof -
  have "(\<lambda>r. if r_id r = i
             then applyBillReminderPatch
                    (noBillReminderPatch\<lparr>ur_isPaid := Some True,
                       ur_transactionId := Some (if truthyString tid then tid else None)\<rparr>) now r
             else r)
        = (\<lambda>x. if r_id x = i then paidRow now tid x else x)"
    by (simp add: fun_eq_iff paid_patch)
  then show ?thesis
    by (simp add: BillReminderService_update_def Let_def)
qed

lemma markAsUnpaid_eq:
  "markAsUnpaid d now i
   = (d\<lparr>billReminders := map (\<lambda>x. if r_id x = i then unpaidRow now x else x) (billReminders d)\<rparr>,
      find (\<lambda>r. r_id r = i)
        (map (\<lambda>x. if r_id x = i then unpaidRow now x else x) (billReminders d)))"
proof -
  have "(\<lambda>r. if r_id r = i
             then applyBillReminderPatch
                    (noBillReminderPatch\<lparr>ur_isPaid := Some False, ur_transactionId := Some None\<rparr>)
                    now r
             else r)
        = (\<lambda>x. if r_id x = i then unpaidRow now x else x)"
    by (simp add: fun_eq_iff unpaid_patch)
  then show ?thesis
    by (simp add: markAsUnpaid_def BillReminderService_update_def Let_def)
qed

lemma createNextRecurring_null:
  assumes "r_frequency r \<noteq> Some ''monthly''" and "r_frequency r \<noteq> Some ''yearly''"
  shows "createNextRecurring d tz now newId r = (d, Inr None)"
  using assms by (simp add: createNextRecurring_def)

lemma createNextRecurring_spawn:
  assumes "r_isRecurring r"
    and "r_frequency r = Some ''monthly'' \<or> r_frequency r = Some ''yearly''"
    and "newId \<notin> set (map r_id (billReminders d))"
  shows "createNextRecurring d tz now newId r
           = (d\<lparr>billReminders := billReminders d @ [successorOf tz now newId r]\<rparr>,
              Inr (Some (successorOf tz now newId r)))"
proof -
  have row: "billReminderRow newId now
       \<lparr>nr_title = r_title r, nr_amount = r_amount r, nr_categoryId = r_categoryId r,
        nr_walletId = r_walletId r, nr_dueDate = nextDueDate tz r,
        nr_reminderDate = map_option (\<lambda>rd. nextDueDate tz r - (r_dueDate r - rd)) (r_reminderDate r),
        nr_isRecurring = Some True, nr_frequency = r_frequency r, nr_isPaid = Some False,
        nr_transactionId = None, nr_notes = r_notes r\<rparr>
     = successorOf tz now newId r"
    by (simp add: billReminderRow_def successorOf_def)
  have rd: "(case r_reminderDate r of
               None \<Rightarrow> None
             | Some reminderDate \<Rightarrow> Some (nextDueDate tz r - (r_dueDate r - reminderDate)))
            = map_option (\<lambda>rd. nextDueDate tz r - (r_dueDate r - rd)) (r_reminderDate r)"
    by (cases "r_reminderDate r") simp_all
  have next_due: "(if r_frequency r = Some ''monthly''
                   then setMonth tz (r_dueDate r) (getMonth tz (r_dueDate r) + 1)
                   else setFullYear tz (r_dueDate r) (getFullYear tz (r_dueDate r) + 1))
                  = nextDueDate tz r"
    by (simp add: nextDueDate_def)
  have truthy: "truthyString (r_frequency r)"
    using assms(2) by auto
  show ?thesis
    using assms truthy
    unfolding createNextRecurring_def Let_def next_due
    by (auto simp: BillReminderService_create_def Let_def row [symmetric] rd split: option.splits)
qed

lemma markAsPaid_missing:
  "BillReminderService_getById d i = None \<Longrightarrow>
   markAsPaid d tz now newId i tid = (d, Inl (Error ''Bill reminder not found''))"
  by (simp add: markAsPaid_def)

lemma map_id_update:
  "(\<And>y. k (f y) = k y) \<Longrightarrow> map k (map (\<lambda>t. if k t = i then f t else t) xs) = map k xs"
  by (induction xs) auto

lemma markAsPaid_spawn:
  assumes "BillReminderService_getById d i = Some r"
    and "r_isRecurring r"
    and "r_frequency r = Some ''monthly'' \<or> r_frequency r = Some ''yearly''"
    and "newId \<notin> set (map r_id (billReminders d))"
  shows "markAsPaid d tz now newId i tid
           = (d\<lparr>billReminders :=
                  map (\<lambda>x. if r_id x = i then paidRow now tid x else x) (billReminders d)
                  @ [successorOf tz now newId r]\<rparr>,
              Inr (Some (paidRow now tid r)))"
proof -
  let ?rows = "map (\<lambda>x. if r_id x = i then paidRow now tid x else x) (billReminders d)"
  let ?d1 = "d\<lparr>billReminders := ?rows\<rparr>"
  have updated: "find (\<lambda>r. r_id r = i) ?rows = Some (paidRow now tid r)"
    using assms(1) by (intro find_map_update) (simp_all add: BillReminderService_getById_def)
  have "map r_id ?rows = map r_id (billReminders d)"
    by (rule map_id_update) simp
  then have fresh: "newId \<notin> set (map r_id (billReminders ?d1))"
    using assms(4) by simp
  have truthy: "truthyString (r_frequency r)"
    using assms(3) by auto
  show ?thesis
    using createNextRecurring_spawn [OF assms(2,3) fresh, of tz now]
    by (simp add: markAsPaid_def assms(1,2) markPaid_update updated truthy)
qed

lemma successor_unpaid: "\<not> r_isPaid (successorOf tz now newId r)"
  by (simp add: successorOf_def)

lemma successor_lead:
  "r_reminderDate r = Some rd \<Longrightarrow>
   \<exists>rd'. r_reminderDate (successorOf tz now newId r) = Some rd'
       \<and> r_dueDate (successorOf tz now newId r) - rd' = r_dueDate r - rd"
  by (simp add: successorOf_def)

lemma successor_no_reminder:
  "r_reminderDate r = None \<Longrightarrow> r_reminderDate (successorOf tz now newId r) = None"
  by (simp add: successorOf_def)

lemma successorOf_id [simp]: "r_id (successorOf tz now newId r) = newId"
  by (simp add: successorOf_def)

lemma successor_due [simp]: "r_dueDate (successorOf tz now newId r) = nextDueDate tz r"
  by (simp add: successorOf_def)

lemma successor_fields:
  "r_id (successorOf tz now newId r) = newId \<and> r_title (successorOf tz now newId r) = r_title r
   \<and> r_amount (successorOf tz now newId r) = r_amount r
   \<and> r_categoryId (successorOf tz now newId r) = r_categoryId r
   \<and> r_walletId (successorOf tz now newId r) = r_walletId r
   \<and> r_isRecurring (successorOf tz now newId r)
   \<and> r_frequency (successorOf tz now newId r) = r_frequency r
   \<and> r_transactionId (successorOf tz now newId r) = None
   \<and> r_notes (successorOf tz now newId r) = r_notes r
   \<and> r_createdAt (successorOf tz now newId r) = now
   \<and> r_updatedAt (successorOf tz now newId r) = now"
  by (simp add: successorOf_def)

lemma successor_monthly:
  assumes "r_frequency r = Some ''monthly''"
  shows "r_dueDate (successorOf tz now newId r)
           = UTC tz (civilTime
               (if getMonth tz (r_dueDate r) = 11 then getFullYear tz (r_dueDate r) + 1
                else getFullYear tz (r_dueDate r))
               (if getMonth tz (r_dueDate r) = 11 then 0 else getMonth tz (r_dueDate r) + 1)
               (getDate tz (r_dueDate r)) (TimeWithinDay (LocalTime tz (r_dueDate r))))"
  using assms by (simp add: nextDueDate_def setMonth_next_eq)

lemma successor_yearly:
  assumes "r_frequency r = Some ''yearly''"
  shows "r_dueDate (successorOf tz now newId r)
           = UTC tz (civilTime (getFullYear tz (r_dueDate r) + 1) (getMonth tz (r_dueDate r))
               (getDate tz (r_dueDate r)) (TimeWithinDay (LocalTime tz (r_dueDate r))))"
  using assms by (simp add: nextDueDate_def setFullYear_next_eq)

lemma local_reading:
  assumes "x = UTC tz L" and "LocalTime tz (UTC tz L) = L"
  shows "getFullYear tz x = YearFromTime L" and "getMonth tz x = MonthFromTime L"
    and "getDate tz x = DateFromTime L" and "TimeWithinDay (LocalTime tz x) = TimeWithinDay L"
  using assms by (simp_all add: getFullYear_def getMonth_def getDate_def)

lemma exampleBill_facts:
  "BillReminderService_getById (exampleBills (exampleBill due rem)) ''r1'' = Some (exampleBill due rem)"
  "r_isRecurring (exampleBill due rem)"
  "r_frequency (exampleBill due rem) = Some ''monthly''"
  "''r2'' \<notin> set (map r_id (billReminders (exampleBills (exampleBill due rem))))"
  by (simp_all add: BillReminderService_getById_def exampleBills_def exampleBill_def exampleDb_def)

lemma example_markAsPaid:
  "map (\<lambda>x. (r_id x, r_dueDate x, r_reminderDate x, r_isPaid x))
     (billReminders (fst (markAsPaid
        (exampleBills (exampleBill (localDate (fixedZone off) 2024 2 15)
                         (Some (localDate (fixedZone off) 2024 2 12))))
        (fixedZone off) now ''r2'' ''r1'' None)))
   = [(''r1'', localDate (fixedZone off) 2024 2 15, Some (localDate (fixedZone off) 2024 2 12), True),
      (''r2'', localDate (fixedZone off) 2024 3 15, Some (localDate (fixedZone off) 2024 3 12), False)]"
proof -
  define z where "z = fixedZone off"
  let ?b = "exampleBill (localDate z 2024 2 15) (Some (localDate z 2024 2 12))"
  have "markAsPaid (exampleBills ?b) z now ''r2'' ''r1'' None
          = ((exampleBills ?b)\<lparr>billReminders :=
                map (\<lambda>x. if r_id x = ''r1'' then paidRow now None x else x)
                  (billReminders (exampleBills ?b))
                @ [successorOf z now ''r2'' ?b]\<rparr>,
             Inr (Some (paidRow now None ?b)))"
    using exampleBill_facts [of "localDate z 2024 2 15" "Some (localDate z 2024 2 12)"]
    by (intro markAsPaid_spawn) simp_all
  moreover have due: "nextDueDate z ?b = localDate z 2024 3 15"
    unfolding z_def by (rule example_due)
  moreover have "r_reminderDate (successorOf z now ''r2'' ?b) = Some (localDate z 2024 3 12)"
    using example_lead [of off] by (simp add: successorOf_def due) (simp add: exampleBill_def z_def)
  ultimately show ?thesis
    unfolding z_def [symmetric]
    by (simp add: exampleBills_def successor_unpaid)
       (simp add: exampleBill_def paidRow_def successorOf_def)
qed

text \<open>
  Claim C7, as the code has it. \<open>markAsPaid\<close> on an id that no reminder has fails with the
  error "Bill reminder not found" and writes nothing. On a reminder that exists, is
  recurring and has the frequency monthly or yearly (and with a new id for the successor),
  it marks every row of that id paid and appends exactly one successor, which is unpaid,
  has the new id, and keeps the title, amount, category, wallet, notes and frequency.

  Let the old due date read, in the local zone, day \<open>D\<close> of month \<open>M\<close> of year \<open>Y\<close> at the
  time of day \<open>T\<close>, and let \<open>M1\<close> of \<open>Y1\<close> be the month after \<open>M\<close> of \<open>Y\<close>. The successor
  of a monthly reminder is due at the time value of the local time that \<open>MakeDay\<close> gives
  for day \<open>D\<close> of \<open>M1\<close> of \<open>Y1\<close> at \<open>T\<close>. When that month has a day \<open>D\<close>, this is day \<open>D\<close>
  of the next month at the same time of day, as the claim says. When it has not (\<open>D\<close> is
  29, 30 or 31 and the next month is shorter), it is a day of the month after the next:
  the code skips a month. The successor of a yearly reminder is due on the same day and
  month of year \<open>Y + 1\<close>, except that 29 February becomes 1 March. Whenever the zone has
  the local time in question (it does not fall into an hour that a change of the clocks
  skips), \<open>getFullYear\<close>, \<open>getMonth\<close> and \<open>getDate\<close> of the new due date read exactly
  these fields.

  The successor's reminder date lies exactly as far before its due date as the old
  reminder date lay before the old due date, and there is none when the old reminder had
  none. The example, in any zone of constant offset: a monthly reminder due 2024-03-15
  with the reminder date 2024-03-12 gets a successor due 2024-04-15 with the reminder
  date 2024-04-12. \<open>createNextRecurring\<close> returns null, writing nothing, when the
  frequency is neither monthly nor yearly.
\<close>

theorem markAsPaid_recurring:
  fixes tz :: zone and r :: BillReminder and now :: date and newId :: string
  defines "s \<equiv> successorOf tz now newId r"
    and "Y \<equiv> getFullYear tz (r_dueDate r)"
    and "M \<equiv> getMonth tz (r_dueDate r)"
    and "D \<equiv> getDate tz (r_dueDate r)"
    and "T \<equiv> TimeWithinDay (LocalTime tz (r_dueDate r))"
  defines "Y1 \<equiv> (if M = 11 then Y + 1 else Y)"
    and "M1 \<equiv> (if M = 11 then 0 else M + 1)"
  shows
  "(BillReminderService_getById d i = None \<longrightarrow>
      markAsPaid d tz now newId i tid = (d, Inl (Error ''Bill reminder not found'')))
   \<and> (BillReminderService_getById d i = Some r \<and> r_isRecurring r
        \<and> (r_frequency r = Some ''monthly'' \<or> r_frequency r = Some ''yearly'')
        \<and> newId \<notin> set (map r_id (billReminders d)) \<longrightarrow>
        markAsPaid d tz now newId i tid
          = (d\<lparr>billReminders :=
                 map (\<lambda>x. if r_id x = i then paidRow now tid x else x) (billReminders d) @ [s]\<rparr>,
             Inr (Some (paidRow now tid r))))
   \<and> \<not> r_isPaid s
   \<and> (r_id s = newId \<and> r_title s = r_title r \<and> r_amount s = r_amount r
        \<and> r_categoryId s = r_categoryId r \<and> r_walletId s = r_walletId r
        \<and> r_isRecurring s \<and> r_frequency s = r_frequency r \<and> r_transactionId s = None
        \<and> r_notes s = r_notes r \<and> r_createdAt s = now \<and> r_updatedAt s = now)
   \<and> (r_frequency r = Some ''monthly'' \<longrightarrow>
        r_dueDate s = UTC tz (civilTime Y1 M1 D T)
      \<and> (D \<le> daysInMonth Y1 M1 \<longrightarrow>
           YearFromTime (civilTime Y1 M1 D T) = Y1
         \<and> MonthFromTime (civilTime Y1 M1 D T) = M1
         \<and> DateFromTime (civilTime Y1 M1 D T) = D
         \<and> TimeWithinDay (civilTime Y1 M1 D T) = T)
      \<and> (daysInMonth Y1 M1 < D \<longrightarrow>
           YearFromTime (civilTime Y1 M1 D T) = Y1
         \<and> MonthFromTime (civilTime Y1 M1 D T) = M1 + 1
         \<and> DateFromTime (civilTime Y1 M1 D T) = D - daysInMonth Y1 M1
         \<and> TimeWithinDay (civilTime Y1 M1 D T) = T))
   \<and> (r_frequency r = Some ''yearly'' \<longrightarrow>
        r_dueDate s = UTC tz (civilTime (Y + 1) M D T)
      \<and> (\<not> (M = 1 \<and> D = 29) \<longrightarrow>
           YearFromTime (civilTime (Y + 1) M D T) = Y + 1
         \<and> MonthFromTime (civilTime (Y + 1) M D T) = M
         \<and> DateFromTime (civilTime (Y + 1) M D T) = D
         \<and> TimeWithinDay (civilTime (Y + 1) M D T) = T)
      \<and> (M = 1 \<and> D = 29 \<longrightarrow>
           YearFromTime (civilTime (Y + 1) M D T) = Y + 1
         \<and> MonthFromTime (civilTime (Y + 1) M D T) = 2
         \<and> DateFromTime (civilTime (Y + 1) M D T) = 1
         \<and> TimeWithinDay (civilTime (Y + 1) M D T) = T))
   \<and> (\<forall>L. r_dueDate s = UTC tz L \<and> LocalTime tz (UTC tz L) = L \<longrightarrow>
          getFullYear tz (r_dueDate s) = YearFromTime L
        \<and> getMonth tz (r_dueDate s) = MonthFromTime L
        \<and> getDate tz (r_dueDate s) = DateFromTime L
        \<and> TimeWithinDay (LocalTime tz (r_dueDate s)) = TimeWithinDay L)
   \<and> (\<forall>rd. r_reminderDate r = Some rd \<longrightarrow>
        (\<exists>rd'. r_reminderDate s = Some rd' \<and> r_dueDate s - rd' = r_dueDate r - rd))
   \<and> (r_reminderDate r = None \<longrightarrow> r_reminderDate s = None)
   \<and> map (\<lambda>x. (r_id x, r_dueDate x, r_reminderDate x, r_isPaid x))
        (billReminders (fst (markAsPaid
           (exampleBills (exampleBill (localDate (fixedZone off) 2024 2 15)
                            (Some (localDate (fixedZone off) 2024 2 12))))
           (fixedZone off) now ''r2'' ''r1'' None)))
      = [(''r1'', localDate (fixedZone off) 2024 2 15,
          Some (localDate (fixedZone off) 2024 2 12), True),
         (''r2'', localDate (fixedZone off) 2024 3 15,
          Some (localDate (fixedZone off) 2024 3 12), False)]
   \<and> (r_frequency r \<noteq> Some ''monthly'' \<and> r_frequency r \<noteq> Some ''yearly'' \<longrightarrow>
        createNextRecurring d tz now newId r = (d, Inr None))"
proof -
  note defs = s_def Y1_def M1_def Y_def M_def D_def T_def
  have c1: "BillReminderService_getById d i = None \<longrightarrow>
      markAsPaid d tz now newId i tid = (d, Inl (Error ''Bill reminder not found''))"
    using markAsPaid_missing [of d i tz now newId tid] by blast
  have c2: "BillReminderService_getById d i = Some r \<and> r_isRecurring r
        \<and> (r_frequency r = Some ''monthly'' \<or> r_frequency r = Some ''yearly'')
        \<and> newId \<notin> set (map r_id (billReminders d)) \<longrightarrow>
        markAsPaid d tz now newId i tid
          = (d\<lparr>billReminders :=
                 map (\<lambda>x. if r_id x = i then paidRow now tid x else x) (billReminders d) @ [s]\<rparr>,
             Inr (Some (paidRow now tid r)))"
    unfolding defs using markAsPaid_spawn [of d i r newId tz now tid] by blast
  have c3: "\<not> r_isPaid s"
    unfolding defs by (rule successor_unpaid)
  have c4: "r_id s = newId \<and> r_title s = r_title r \<and> r_amount s = r_amount r
        \<and> r_categoryId s = r_categoryId r \<and> r_walletId s = r_walletId r
        \<and> r_isRecurring s \<and> r_frequency s = r_frequency r \<and> r_transactionId s = None
        \<and> r_notes s = r_notes r \<and> r_createdAt s = now \<and> r_updatedAt s = now"
    unfolding defs by (rule successor_fields)
  have c5: "r_frequency r = Some ''monthly'' \<longrightarrow>
        r_dueDate s = UTC tz (civilTime Y1 M1 D T)
      \<and> (D \<le> daysInMonth Y1 M1 \<longrightarrow>
           YearFromTime (civilTime Y1 M1 D T) = Y1
         \<and> MonthFromTime (civilTime Y1 M1 D T) = M1
         \<and> DateFromTime (civilTime Y1 M1 D T) = D
         \<and> TimeWithinDay (civilTime Y1 M1 D T) = T)
      \<and> (daysInMonth Y1 M1 < D \<longrightarrow>
           YearFromTime (civilTime Y1 M1 D T) = Y1
         \<and> MonthFromTime (civilTime Y1 M1 D T) = M1 + 1
         \<and> DateFromTime (civilTime Y1 M1 D T) = D - daysInMonth Y1 M1
         \<and> TimeWithinDay (civilTime Y1 M1 D T) = T)"
    unfolding defs
    using successor_monthly [of r tz now newId] nextMonth_fields [of tz "r_dueDate r"]
      nextMonth_rollover [of tz "r_dueDate r"]
    by (intro conjI impI) blast+
  have c6: "r_frequency r = Some ''yearly'' \<longrightarrow>
        r_dueDate s = UTC tz (civilTime (Y + 1) M D T)
      \<and> (\<not> (M = 1 \<and> D = 29) \<longrightarrow>
           YearFromTime (civilTime (Y + 1) M D T) = Y + 1
         \<and> MonthFromTime (civilTime (Y + 1) M D T) = M
         \<and> DateFromTime (civilTime (Y + 1) M D T) = D
         \<and> TimeWithinDay (civilTime (Y + 1) M D T) = T)
      \<and> (M = 1 \<and> D = 29 \<longrightarrow>
           YearFromTime (civilTime (Y + 1) M D T) = Y + 1
         \<and> MonthFromTime (civilTime (Y + 1) M D T) = 2
         \<and> DateFromTime (civilTime (Y + 1) M D T) = 1
         \<and> TimeWithinDay (civilTime (Y + 1) M D T) = T)"
    unfolding defs
    using successor_yearly [of r tz now newId] nextYear_fields [of tz "r_dueDate r"]
      nextYear_rollover [of tz "r_dueDate r"]
    by (intro conjI impI) blast+
  have c7: "\<forall>L. r_dueDate s = UTC tz L \<and> LocalTime tz (UTC tz L) = L \<longrightarrow>
          getFullYear tz (r_dueDate s) = YearFromTime L
        \<and> getMonth tz (r_dueDate s) = MonthFromTime L
        \<and> getDate tz (r_dueDate s) = DateFromTime L
        \<and> TimeWithinDay (LocalTime tz (r_dueDate s)) = TimeWithinDay L"
    using local_reading [of "r_dueDate s" tz] by blast
  have c8: "\<forall>rd. r_reminderDate r = Some rd \<longrightarrow>
        (\<exists>rd'. r_reminderDate s = Some rd' \<and> r_dueDate s - rd' = r_dueDate r - rd)"
    unfolding defs using successor_lead [of r _ tz now newId] by blast
  have c9: "r_reminderDate r = None \<longrightarrow> r_reminderDate s = None"
    unfolding defs using successor_no_reminder [of r tz now newId] by blast
  have c11: "r_frequency r \<noteq> Some ''monthly'' \<and> r_frequency r \<noteq> Some ''yearly'' \<longrightarrow>
        createNextRecurring d tz now newId r = (d, Inr None)"
    using createNextRecurring_null [of r d tz now newId] by blast
  show ?thesis
    by (rule conjI [OF c1 conjI [OF c2 conjI [OF c3 conjI [OF c4 conjI [OF c5 conjI [OF c6
          conjI [OF c7 conjI [OF c8 conjI [OF c9 conjI [OF example_markAsPaid c11]]]]]]]]]])
qed

subsection \<open>A due date at the end of a month\<close>

lemma january_31_successor:
  "getFullYear (fixedZone 0) (nextDueDate (fixedZone 0) (exampleBill (localDate (fixedZone 0) 2024 0 31) None)) = 2024"
  "getMonth (fixedZone 0) (nextDueDate (fixedZone 0) (exampleBill (localDate (fixedZone 0) 2024 0 31) None)) = 2"
  "getDate (fixedZone 0) (nextDueDate (fixedZone 0) (exampleBill (localDate (fixedZone 0) 2024 0 31) None)) = 2"
proof -
  let ?z = "fixedZone 0"
  have jan: "getMonth ?z (localDate ?z 2024 0 31) = 0"
    by (rule localDate_civil) (simp_all add: daysInMonth_2024)
  have "setMonth ?z (localDate ?z 2024 0 31) 1 = localDate ?z 2024 1 31"
    by (rule setMonth_localDate) (simp_all add: daysInMonth_2024)
  then have due: "nextDueDate ?z (exampleBill (localDate ?z 2024 0 31) None) = localDate ?z 2024 1 31"
    by (simp add: nextDueDate_def exampleBill_def jan)
  have "civilTime 2024 1 31 0 = civilTime 2024 (1 + 1) (31 - daysInMonth 2024 1) 0"
    by (rule civilTime_rollover) simp_all
  then have local: "LocalTime ?z (localDate ?z 2024 1 31) = civilTime 2024 2 2 0"
    by (simp add: daysInMonth_2024 localDate_civilTime [symmetric])
  have civil: "YearFromTime (civilTime 2024 2 2 0) = 2024"
    "MonthFromTime (civilTime 2024 2 2 0) = 2" "DateFromTime (civilTime 2024 2 2 0) = 2"
    by (rule civilTime_fields; simp add: daysInMonth_2024 msPerDay_def)+
  show "getFullYear ?z (nextDueDate ?z (exampleBill (localDate ?z 2024 0 31) None)) = 2024"
    "getMonth ?z (nextDueDate ?z (exampleBill (localDate ?z 2024 0 31) None)) = 2"
    "getDate ?z (nextDueDate ?z (exampleBill (localDate ?z 2024 0 31) None)) = 2"
    by (simp_all add: due getFullYear_def getMonth_def getDate_def local civil)
qed

text \<open>
  The claim words the successor's due date as the old one plus one month. A monthly
  reminder due 2024-01-31 (UTC) gets a successor due 2024-03-02: \<open>setMonth\<close> asks for
  31 February, which rolls over into March, and no reminder is due in February. Months
  count from 0, so the rows below read 31 January and 2 March.
\<close>

theorem markAsPaid_month_end_counterexample:
  "map (\<lambda>x. (r_id x, getFullYear (fixedZone 0) (r_dueDate x), getMonth (fixedZone 0) (r_dueDate x),
              getDate (fixedZone 0) (r_dueDate x)))
     (billReminders (fst (markAsPaid
        (exampleBills (exampleBill (localDate (fixedZone 0) 2024 0 31) None))
        (fixedZone 0) 5 ''r2'' ''r1'' None)))
   = [(''r1'', 2024, 0, 31), (''r2'', 2024, 2, 2)]"
proof -
  let ?z = "fixedZone 0"
  let ?b = "exampleBill (localDate ?z 2024 0 31) None"
  have "markAsPaid (exampleBills ?b) ?z 5 ''r2'' ''r1'' None
          = ((exampleBills ?b)\<lparr>billReminders :=
                map (\<lambda>x. if r_id x = ''r1'' then paidRow 5 None x else x)
                  (billReminders (exampleBills ?b))
                @ [successorOf ?z 5 ''r2'' ?b]\<rparr>,
             Inr (Some (paidRow 5 None ?b)))"
    using exampleBill_facts [of "localDate ?z 2024 0 31" None]
    by (intro markAsPaid_spawn) simp_all
  moreover have "getFullYear ?z (localDate ?z 2024 0 31) = 2024"
    "getMonth ?z (localDate ?z 2024 0 31) = 0" "getDate ?z (localDate ?z 2024 0 31) = 31"
    by (rule localDate_civil; simp add: daysInMonth_2024)+
  ultimately show ?thesis
    by (simp add: exampleBills_def january_31_successor)
       (simp add: exampleBill_def paidRow_def successorOf_def)
qed

text \<open>
  The theorem at the rent due 2024-03-15 (UTC) with the reminder date 2024-03-12, at a
  monthly reminder due 2024-01-31, at yearly reminders due 2024-03-15 and 2024-02-29,
  and at a reminder with the frequency weekly.
\<close>

theorem markAsPaid_recurring_witness:
  "(BillReminderService_getById (exampleBills exampleRent) ''nope'' = None
    \<and> markAsPaid (exampleBills exampleRent) (fixedZone 0) 5 ''r2'' ''nope'' None
        = (exampleBills exampleRent, Inl (Error ''Bill reminder not found'')))
   \<and> (BillReminderService_getById (exampleBills exampleRent) ''r1'' = Some exampleRent
      \<and> r_isRecurring exampleRent
      \<and> r_frequency exampleRent = Some ''monthly''
      \<and> ''r2'' \<notin> set (map r_id (billReminders (exampleBills exampleRent)))
      \<and> map r_id (billReminders (fst (markAsPaid (exampleBills exampleRent)
            (fixedZone 0) 5 ''r2'' ''r1'' None))) = [''r1'', ''r2''])
   \<and> (getDate (fixedZone 0) (r_dueDate exampleRent) \<le> daysInMonth 2024 3
      \<and> r_dueDate (successorOf (fixedZone 0) 5 ''r2'' exampleRent) = localDate (fixedZone 0) 2024 3 15
      \<and> getFullYear (fixedZone 0) (r_dueDate (successorOf (fixedZone 0) 5 ''r2'' exampleRent)) = 2024
      \<and> getMonth (fixedZone 0) (r_dueDate (successorOf (fixedZone 0) 5 ''r2'' exampleRent)) = 3
      \<and> getDate (fixedZone 0) (r_dueDate (successorOf (fixedZone 0) 5 ''r2'' exampleRent)) = 15)
   \<and> (r_frequency (exampleBillEvery ''monthly'' (localDate (fixedZone 0) 2024 0 31)) = Some ''monthly''
      \<and> daysInMonth 2024 1
          < getDate (fixedZone 0) (r_dueDate (exampleBillEvery ''monthly'' (localDate (fixedZone 0) 2024 0 31)))
      \<and> getFullYear (fixedZone 0) (r_dueDate (successorOf (fixedZone 0) 5 ''r2''
            (exampleBillEvery ''monthly'' (localDate (fixedZone 0) 2024 0 31)))) = 2024
      \<and> getMonth (fixedZone 0) (r_dueDate (successorOf (fixedZone 0) 5 ''r2''
            (exampleBillEvery ''monthly'' (localDate (fixedZone 0) 2024 0 31)))) = 2
      \<and> getDate (fixedZone 0) (r_dueDate (successorOf (fixedZone 0) 5 ''r2''
            (exampleBillEvery ''monthly'' (localDate (fixedZone 0) 2024 0 31)))) = 2)
   \<and> (r_frequency (exampleBillEvery ''yearly'' (localDate (fixedZone 0) 2024 2 15)) = Some ''yearly''
      \<and> getMonth (fixedZone 0) (r_dueDate (exampleBillEvery ''yearly'' (localDate (fixedZone 0) 2024 2 15))) = 2
      \<and> getFullYear (fixedZone 0) (r_dueDate (successorOf (fixedZone 0) 5 ''r2''
            (exampleBillEvery ''yearly'' (localDate (fixedZone 0) 2024 2 15)))) = 2025
      \<and> getMonth (fixedZone 0) (r_dueDate (successorOf (fixedZone 0) 5 ''r2''
            (exampleBillEvery ''yearly'' (localDate (fixedZone 0) 2024 2 15)))) = 2
      \<and> getDate (fixedZone 0) (r_dueDate (successorOf (fixedZone 0) 5 ''r2''
            (exampleBillEvery ''yearly'' (localDate (fixedZone 0) 2024 2 15)))) = 15)
   \<and> (r_frequency (exampleBillEvery ''yearly'' (localDate (fixedZone 0) 2024 1 29)) = Some ''yearly''
      \<and> getMonth (fixedZone 0) (r_dueDate (exampleBillEvery ''yearly'' (localDate (fixedZone 0) 2024 1 29))) = 1
      \<and> getDate (fixedZone 0) (r_dueDate (exampleBillEvery ''yearly'' (localDate (fixedZone 0) 2024 1 29))) = 29
      \<and> getFullYear (fixedZone 0) (r_dueDate (successorOf (fixedZone 0) 5 ''r2''
            (exampleBillEvery ''yearly'' (localDate (fixedZone 0) 2024 1 29)))) = 2025
      \<and> getMonth (fixedZone 0) (r_dueDate (successorOf (fixedZone 0) 5 ''r2''
            (exampleBillEvery ''yearly'' (localDate (fixedZone 0) 2024 1 29)))) = 2
      \<and> getDate (fixedZone 0) (r_dueDate (successorOf (fixedZone 0) 5 ''r2''
            (exampleBillEvery ''yearly'' (localDate (fixedZone 0) 2024 1 29)))) = 1)
   \<and> (r_reminderDate exampleRent = Some (localDate (fixedZone 0) 2024 2 12)
      \<and> (\<exists>rd'. r_reminderDate (successorOf (fixedZone 0) 5 ''r2'' exampleRent) = Some rd'
            \<and> r_dueDate (successorOf (fixedZone 0) 5 ''r2'' exampleRent) - rd'
               = localDate (fixedZone 0) 2024 2 15 - localDate (fixedZone 0) 2024 2 12))
   \<and> (r_reminderDate (exampleBillEvery ''yearly'' (localDate (fixedZone 0) 2024 2 15)) = None
      \<and> r_reminderDate (successorOf (fixedZone 0) 5 ''r2''
            (exampleBillEvery ''yearly'' (localDate (fixedZone 0) 2024 2 15))) = None)
   \<and> (r_frequency (exampleBillEvery ''weekly'' (localDate (fixedZone 0) 2024 2 15)) = Some ''weekly''
      \<and> createNextRecurring (exampleBills (exampleBillEvery ''weekly'' (localDate (fixedZone 0) 2024 2 15)))
           (fixedZone 0) 5 ''r2'' (exampleBillEvery ''weekly'' (localDate (fixedZone 0) 2024 2 15))
         = (exampleBills (exampleBillEvery ''weekly'' (localDate (fixedZone 0) 2024 2 15)), Inr None))"
proof -
  let ?z = "fixedZone 0"
  define b where "b = exampleRent"
  define j where "j = exampleBillEvery ''monthly'' (localDate ?z 2024 0 31)"
  define y where "y = exampleBillEvery ''yearly'' (localDate ?z 2024 2 15)"
  define f where "f = exampleBillEvery ''yearly'' (localDate ?z 2024 1 29)"
  define w where "w = exampleBillEvery ''weekly'' (localDate ?z 2024 2 15)"
  have march: "getFullYear ?z (localDate ?z 2024 2 15) = 2024"
    "getMonth ?z (localDate ?z 2024 2 15) = 2" "getDate ?z (localDate ?z 2024 2 15) = 15"
    "TimeWithinDay (LocalTime ?z (localDate ?z 2024 2 15)) = 0"
    by (rule localDate_civil; simp add: daysInMonth_2024)+
  have april: "getFullYear ?z (localDate ?z 2024 3 15) = 2024"
    "getMonth ?z (localDate ?z 2024 3 15) = 3" "getDate ?z (localDate ?z 2024 3 15) = 15"
    by (rule localDate_civil; simp add: daysInMonth_2024)+
  have january: "getFullYear ?z (localDate ?z 2024 0 31) = 2024"
    "getMonth ?z (localDate ?z 2024 0 31) = 0" "getDate ?z (localDate ?z 2024 0 31) = 31"
    "TimeWithinDay (LocalTime ?z (localDate ?z 2024 0 31)) = 0"
    by (rule localDate_civil; simp add: daysInMonth_2024)+
  have february: "getFullYear ?z (localDate ?z 2024 1 29) = 2024"
    "getMonth ?z (localDate ?z 2024 1 29) = 1" "getDate ?z (localDate ?z 2024 1 29) = 29"
    "TimeWithinDay (LocalTime ?z (localDate ?z 2024 1 29)) = 0"
    by (rule localDate_civil; simp add: daysInMonth_2024)+
  have b: "r_dueDate b = localDate ?z 2024 2 15" "r_frequency b = Some ''monthly''"
    "r_reminderDate b = Some (localDate ?z 2024 2 12)" "r_isRecurring b"
    by (simp_all add: b_def exampleRent_def exampleBill_def)
  have j: "r_dueDate j = localDate ?z 2024 0 31" "r_frequency j = Some ''monthly''"
    by (simp_all add: j_def exampleBillEvery_def exampleBill_def)
  have y: "r_dueDate y = localDate ?z 2024 2 15" "r_frequency y = Some ''yearly''"
    "r_reminderDate y = None"
    by (simp_all add: y_def exampleBillEvery_def exampleBill_def)
  have f: "r_dueDate f = localDate ?z 2024 1 29" "r_frequency f = Some ''yearly''"
    by (simp_all add: f_def exampleBillEvery_def exampleBill_def)
  have w: "r_frequency w = Some ''weekly''"
    by (simp add: w_def exampleBillEvery_def)
  have none: "BillReminderService_getById (exampleBills b) ''nope'' = None"
    by (simp add: BillReminderService_getById_def exampleBills_def b_def exampleRent_def
          exampleBill_def exampleDb_def)
  have found: "BillReminderService_getById (exampleBills b) ''r1'' = Some b"
    and fresh: "''r2'' \<notin> set (map r_id (billReminders (exampleBills b)))"
    unfolding b_def exampleRent_def by (rule exampleBill_facts)+
  note at_b = markAsPaid_recurring [where d = "exampleBills b" and i = "''r1''" and tz = ?z
      and now = 5 and newId = "''r2''" and tid = None and r = b and off = 0]
  note at_nope = markAsPaid_recurring [where d = "exampleBills b" and i = "''nope''" and tz = ?z
      and now = 5 and newId = "''r2''" and tid = None and r = b and off = 0]
  note at_j = markAsPaid_recurring [where d = "exampleBills j" and i = "''r1''" and tz = ?z
      and now = 5 and newId = "''r2''" and tid = None and r = j and off = 0]
  note at_y = markAsPaid_recurring [where d = "exampleBills y" and i = "''r1''" and tz = ?z
      and now = 5 and newId = "''r2''" and tid = None and r = y and off = 0]
  note at_f = markAsPaid_recurring [where d = "exampleBills f" and i = "''r1''" and tz = ?z
      and now = 5 and newId = "''r2''" and tid = None and r = f and off = 0]
  note at_w = markAsPaid_recurring [where d = "exampleBills w" and i = "''r1''" and tz = ?z
      and now = 5 and newId = "''r2''" and tid = None and r = w and off = 0]
  note monthly = conjunct2 [THEN conjunct2, THEN conjunct2, THEN conjunct2, THEN conjunct1]
  note yearly = conjunct2 [THEN conjunct2, THEN conjunct2, THEN conjunct2, THEN conjunct2,
      THEN conjunct1]
  note reading = conjunct2 [THEN conjunct2, THEN conjunct2, THEN conjunct2, THEN conjunct2,
      THEN conjunct2, THEN conjunct1, THEN spec]
  note lead = conjunct2 [THEN conjunct2, THEN conjunct2, THEN conjunct2, THEN conjunct2,
      THEN conjunct2, THEN conjunct2, THEN conjunct1]
  have c1: "markAsPaid (exampleBills b) ?z 5 ''r2'' ''nope'' None
              = (exampleBills b, Inl (Error ''Bill reminder not found''))"
    using at_nope none by blast
  have "markAsPaid (exampleBills b) ?z 5 ''r2'' ''r1'' None
          = ((exampleBills b)\<lparr>billReminders :=
                map (\<lambda>x. if r_id x = ''r1'' then paidRow 5 None x else x)
                  (billReminders (exampleBills b))
                @ [successorOf ?z 5 ''r2'' b]\<rparr>,
             Inr (Some (paidRow 5 None b)))"
    using at_b found fresh b(2,4) by blast
  then have c2: "map r_id (billReminders (fst (markAsPaid (exampleBills b) ?z 5 ''r2'' ''r1'' None)))
                   = [''r1'', ''r2'']"
    by (simp add: exampleBills_def) (simp add: b_def exampleRent_def exampleBill_def)
  have day_b: "getDate ?z (r_dueDate b) \<le> daysInMonth 2024 3"
    by (simp add: b march daysInMonth_2024)
  have m_b: "r_dueDate (successorOf ?z 5 ''r2'' b) = UTC ?z (civilTime 2024 3 15 0)
      \<and> YearFromTime (civilTime 2024 3 15 0) = 2024
      \<and> MonthFromTime (civilTime 2024 3 15 0) = 3
      \<and> DateFromTime (civilTime 2024 3 15 0) = 15"
    using at_b [THEN monthly] b(2)
    by (simp add: b(1) march daysInMonth_2024)
  have "getFullYear ?z (r_dueDate (successorOf ?z 5 ''r2'' b)) = 2024
      \<and> getMonth ?z (r_dueDate (successorOf ?z 5 ''r2'' b)) = 3
      \<and> getDate ?z (r_dueDate (successorOf ?z 5 ''r2'' b)) = 15"
    using at_b [THEN reading, of "civilTime 2024 3 15 0"] m_b
    by simp
  moreover have "r_dueDate (successorOf ?z 5 ''r2'' b) = localDate ?z 2024 3 15"
    using m_b by (simp add: localDate_civilTime)
  ultimately have c3: "r_dueDate (successorOf ?z 5 ''r2'' b) = localDate ?z 2024 3 15
      \<and> getFullYear ?z (r_dueDate (successorOf ?z 5 ''r2'' b)) = 2024
      \<and> getMonth ?z (r_dueDate (successorOf ?z 5 ''r2'' b)) = 3
      \<and> getDate ?z (r_dueDate (successorOf ?z 5 ''r2'' b)) = 15"
    by blast
  have day_j: "daysInMonth 2024 1 < getDate ?z (r_dueDate j)"
    by (simp add: j january daysInMonth_2024)
  have m_j: "r_dueDate (successorOf ?z 5 ''r2'' j) = UTC ?z (civilTime 2024 1 31 0)
      \<and> YearFromTime (civilTime 2024 1 31 0) = 2024
      \<and> MonthFromTime (civilTime 2024 1 31 0) = 2
      \<and> DateFromTime (civilTime 2024 1 31 0) = 2"
    using at_j [THEN monthly] j(2)
    by (simp add: j(1) january daysInMonth_2024)
  have c4: "getFullYear ?z (r_dueDate (successorOf ?z 5 ''r2'' j)) = 2024
      \<and> getMonth ?z (r_dueDate (successorOf ?z 5 ''r2'' j)) = 2
      \<and> getDate ?z (r_dueDate (successorOf ?z 5 ''r2'' j)) = 2"
    using at_j [THEN reading, of "civilTime 2024 1 31 0"] m_j
    by simp
  have m_y: "r_dueDate (successorOf ?z 5 ''r2'' y) = UTC ?z (civilTime 2025 2 15 0)
      \<and> YearFromTime (civilTime 2025 2 15 0) = 2025
      \<and> MonthFromTime (civilTime 2025 2 15 0) = 2
      \<and> DateFromTime (civilTime 2025 2 15 0) = 15"
    using at_y [THEN yearly] y(2)
    by (simp add: y(1) march)
  have c5: "getFullYear ?z (r_dueDate (successorOf ?z 5 ''r2'' y)) = 2025
      \<and> getMonth ?z (r_dueDate (successorOf ?z 5 ''r2'' y)) = 2
      \<and> getDate ?z (r_dueDate (successorOf ?z 5 ''r2'' y)) = 15"
    using at_y [THEN reading, of "civilTime 2025 2 15 0"] m_y
    by simp
  have m_f: "r_dueDate (successorOf ?z 5 ''r2'' f) = UTC ?z (civilTime 2025 1 29 0)
      \<and> YearFromTime (civilTime 2025 1 29 0) = 2025
      \<and> MonthFromTime (civilTime 2025 1 29 0) = 2
      \<and> DateFromTime (civilTime 2025 1 29 0) = 1"
    using at_f [THEN yearly] f(2)
    by (simp add: f(1) february)
  have c6: "getFullYear ?z (r_dueDate (successorOf ?z 5 ''r2'' f)) = 2025
      \<and> getMonth ?z (r_dueDate (successorOf ?z 5 ''r2'' f)) = 2
      \<and> getDate ?z (r_dueDate (successorOf ?z 5 ''r2'' f)) = 1"
    using at_f [THEN reading, of "civilTime 2025 1 29 0"] m_f
    by simp
  have c7: "\<exists>rd'. r_reminderDate (successorOf ?z 5 ''r2'' b) = Some rd'
              \<and> r_dueDate (successorOf ?z 5 ''r2'' b) - rd'
                 = localDate ?z 2024 2 15 - localDate ?z 2024 2 12"
    using at_b [THEN lead] b(3)
    by (simp add: b(1))
  have c8: "r_reminderDate (successorOf ?z 5 ''r2'' y) = None"
    using at_y y(3) by blast
  have c9: "createNextRecurring (exampleBills w) ?z 5 ''r2'' w = (exampleBills w, Inr None)"
    using at_w w by simp
  show ?thesis
    using none c1 found fresh b c2 day_b c3 j day_j c4 y c5 f c6 c7 c8 w c9 march april february
    unfolding b_def [symmetric] j_def [symmetric] y_def [symmetric] f_def [symmetric]
      w_def [symmetric]
    by simp
qed

subsection \<open>Marking as paid twice\<close>

lemma successorOf_paidRow [simp]:
  "successorOf tz now newId (paidRow now' tid r) = successorOf tz now newId r"
  by (simp add: successorOf_def paidRow_def nextDueDate_def)

lemma find_id_mem: "find (\<lambda>t. k t = i) xs = Some x \<Longrightarrow> i \<in> set (map k xs)"
  by (induction xs) (auto split: if_splits)

lemma find_append_found:
  "find P xs = Some x \<Longrightarrow> find P (xs @ ys) = Some x"
  by (induction xs) auto

lemma markAsPaid_twice_rows:
  assumes found: "BillReminderService_getById d i = Some r"
    and rec: "r_isRecurring r"
    and freq: "r_frequency r = Some ''monthly'' \<or> r_frequency r = Some ''yearly''"
    and fresh1: "id1 \<notin> set (map r_id (billReminders d))"
    and fresh2: "id2 \<notin> set (map r_id (billReminders d))"
    and ne: "id1 \<noteq> id2"
  shows "billReminders (fst (markAsPaid (fst (markAsPaid d tz n1 id1 i t1)) tz n2 id2 i t2))
           = map (\<lambda>x. if r_id x = i then paidRow n2 t2 (paidRow n1 t1 x) else x) (billReminders d)
             @ [successorOf tz n1 id1 r, successorOf tz n2 id2 r]"
proof -
  let ?rows1 = "map (\<lambda>x. if r_id x = i then paidRow n1 t1 x else x) (billReminders d)"
  define d1 where "d1 = fst (markAsPaid d tz n1 id1 i t1)"
  have i_mem: "i \<in> set (map r_id (billReminders d))"
    using found unfolding BillReminderService_getById_def by (rule find_id_mem)
  have i1: "id1 \<noteq> i" and i2: "id2 \<noteq> i"
    using i_mem fresh1 fresh2 by auto
  have rows1: "billReminders d1 = ?rows1 @ [successorOf tz n1 id1 r]"
    unfolding d1_def by (simp add: markAsPaid_spawn [OF found rec freq fresh1])
  have "find (\<lambda>r. r_id r = i) ?rows1 = Some (paidRow n1 t1 r)"
    using found by (intro find_map_update) (simp_all add: BillReminderService_getById_def)
  then have found1: "BillReminderService_getById d1 i = Some (paidRow n1 t1 r)"
    by (simp add: BillReminderService_getById_def rows1 find_append_found)
  have rec1: "r_isRecurring (paidRow n1 t1 r)"
    and freq1: "r_frequency (paidRow n1 t1 r) = Some ''monthly''
                \<or> r_frequency (paidRow n1 t1 r) = Some ''yearly''"
    using rec freq by (simp_all add: paidRow_def)
  have "map r_id ?rows1 = map r_id (billReminders d)"
    by (rule map_id_update) simp
  then have fresh: "id2 \<notin> set (map r_id (billReminders d1))"
    using fresh2 ne by (simp add: rows1)
  have "billReminders (fst (markAsPaid d1 tz n2 id2 i t2))
          = map (\<lambda>x. if r_id x = i then paidRow n2 t2 x else x) (billReminders d1)
            @ [successorOf tz n2 id2 (paidRow n1 t1 r)]"
    by (simp add: markAsPaid_spawn [OF found1 rec1 freq1 fresh])
  also have "\<dots> = map (\<lambda>x. if r_id x = i then paidRow n2 t2 (paidRow n1 t1 x) else x)
                     (billReminders d)
                   @ [successorOf tz n1 id1 r, successorOf tz n2 id2 r]"
    using i1 by (simp add: rows1 comp_def if_distrib [of "\<lambda>x. if r_id x = i then paidRow n2 t2 x else x"]
                   cong: if_cong)
  finally show ?thesis
    unfolding d1_def .
qed

text \<open>
  Claim C10. Let a reminder exist, be recurring and have the frequency monthly or yearly,
  and let the two ids drawn for successors be new and different. The first \<open>markAsPaid\<close>
  marks the reminder paid and appends a successor. The second \<open>markAsPaid\<close> on the same
  id finds the reminder already paid and appends a second successor all the same, so the
  table ends with two successors. \<open>markAsUnpaid\<close> afterwards rewrites only the rows of
  that id: both successors stay.
\<close>

theorem markAsPaid_twice:
  assumes "BillReminderService_getById d i = Some r"
    and "r_isRecurring r"
    and "r_frequency r = Some ''monthly'' \<or> r_frequency r = Some ''yearly''"
    and "id1 \<notin> set (map r_id (billReminders d))"
    and "id2 \<notin> set (map r_id (billReminders d))"
    and "id1 \<noteq> id2"
  shows "billReminders (fst (markAsPaid d tz n1 id1 i t1))
           = map (\<lambda>x. if r_id x = i then paidRow n1 t1 x else x) (billReminders d)
             @ [successorOf tz n1 id1 r]
    \<and> BillReminderService_getById (fst (markAsPaid d tz n1 id1 i t1)) i = Some (paidRow n1 t1 r)
    \<and> r_isPaid (paidRow n1 t1 r)
    \<and> billReminders (fst (markAsPaid (fst (markAsPaid d tz n1 id1 i t1)) tz n2 id2 i t2))
           = map (\<lambda>x. if r_id x = i then paidRow n2 t2 (paidRow n1 t1 x) else x) (billReminders d)
             @ [successorOf tz n1 id1 r, successorOf tz n2 id2 r]
    \<and> billReminders
         (fst (markAsUnpaid (fst (markAsPaid (fst (markAsPaid d tz n1 id1 i t1)) tz n2 id2 i t2)) n3 i))
           = map (\<lambda>x. if r_id x = i then unpaidRow n3 (paidRow n2 t2 (paidRow n1 t1 x)) else x)
               (billReminders d)
             @ [successorOf tz n1 id1 r, successorOf tz n2 id2 r]"
proof -
  have i_mem: "i \<in> set (map r_id (billReminders d))"
    using assms(1) unfolding BillReminderService_getById_def by (rule find_id_mem)
  have i1: "id1 \<noteq> i" and i2: "id2 \<noteq> i"
    using i_mem assms(4,5) by auto
  have first: "billReminders (fst (markAsPaid d tz n1 id1 i t1))
           = map (\<lambda>x. if r_id x = i then paidRow n1 t1 x else x) (billReminders d)
             @ [successorOf tz n1 id1 r]"
    by (simp add: markAsPaid_spawn [OF assms(1-4)])
  have "find (\<lambda>r. r_id r = i)
          (map (\<lambda>x. if r_id x = i then paidRow n1 t1 x else x) (billReminders d))
        = Some (paidRow n1 t1 r)"
    using assms(1) by (intro find_map_update) (simp_all add: BillReminderService_getById_def)
  then have found1: "BillReminderService_getById (fst (markAsPaid d tz n1 id1 i t1)) i
                       = Some (paidRow n1 t1 r)"
    by (simp add: BillReminderService_getById_def first find_append_found)
  note second = markAsPaid_twice_rows [OF assms, of tz n1 t1 n2 t2]
  have third: "billReminders
         (fst (markAsUnpaid (fst (markAsPaid (fst (markAsPaid d tz n1 id1 i t1)) tz n2 id2 i t2)) n3 i))
           = map (\<lambda>x. if r_id x = i then unpaidRow n3 (paidRow n2 t2 (paidRow n1 t1 x)) else x)
               (billReminders d)
             @ [successorOf tz n1 id1 r, successorOf tz n2 id2 r]"
    using i1 i2
    by (simp add: markAsUnpaid_eq second comp_def
          if_distrib [of "\<lambda>x. if r_id x = i then unpaidRow n3 x else x"] cong: if_cong)
  show ?thesis
    using first found1 second third by (simp add: paidRow_def)
qed

text \<open>The theorem at a table that holds one monthly reminder.\<close>

theorem markAsPaid_twice_witness:
  "BillReminderService_getById (exampleBills (exampleBill 0 None)) ''r1'' = Some (exampleBill 0 None)
   \<and> r_isRecurring (exampleBill 0 None)
   \<and> r_frequency (exampleBill 0 None) = Some ''monthly''
   \<and> ''r2'' \<notin> set (map r_id (billReminders (exampleBills (exampleBill 0 None))))
   \<and> ''r3'' \<notin> set (map r_id (billReminders (exampleBills (exampleBill 0 None))))
   \<and> map (\<lambda>x. (r_id x, r_isPaid x))
        (billReminders (fst (markAsPaid (fst (markAsPaid (exampleBills (exampleBill 0 None))
                                                (fixedZone 0) 1 ''r2'' ''r1'' None))
                               (fixedZone 0) 2 ''r3'' ''r1'' None)))
      = [(''r1'', True), (''r2'', False), (''r3'', False)]
   \<and> map (\<lambda>x. (r_id x, r_isPaid x))
        (billReminders (fst (markAsUnpaid
           (fst (markAsPaid (fst (markAsPaid (exampleBills (exampleBill 0 None))
                                    (fixedZone 0) 1 ''r2'' ''r1'' None))
                   (fixedZone 0) 2 ''r3'' ''r1'' None)) 3 ''r1'')))
      = [(''r1'', False), (''r2'', False), (''r3'', False)]"
proof -
  let ?b = "exampleBill 0 None"
  have facts: "BillReminderService_getById (exampleBills ?b) ''r1'' = Some ?b"
    "r_isRecurring ?b" "r_frequency ?b = Some ''monthly''"
    "''r2'' \<notin> set (map r_id (billReminders (exampleBills ?b)))"
    by (rule exampleBill_facts)+
  have fresh3: "''r3'' \<notin> set (map r_id (billReminders (exampleBills ?b)))"
    by (simp add: exampleBills_def exampleBill_def exampleDb_def)
  have ne: "''r2'' \<noteq> ''r3''" by simp
  have freq: "r_frequency ?b = Some ''monthly'' \<or> r_frequency ?b = Some ''yearly''"
    using facts(3) by simp
  note twice = markAsPaid_twice [OF facts(1,2) freq facts(4) fresh3 ne, of "fixedZone 0" 1 None 2 None 3]
  have rows: "billReminders (exampleBills ?b) = [?b]" and rid: "r_id ?b = ''r1''"
    by (simp_all add: exampleBills_def exampleBill_def)
  show ?thesis
    using facts fresh3
    by (simp add: twice rows rid successor_unpaid) (simp add: paidRow_def unpaidRow_def)
qed

end
